theory Spec2Isabelle
  imports Main
begin

section \<open>JavaScript values and the test runner\<close>

text \<open>
  The rule configuration of a schema has the TypeScript type \<open>unknown\<close>; the objects the
  linting engine reports are plain JavaScript objects. Both are values of \<open>jsval\<close>. An
  object is read through \<open>map_of\<close>: a property that is absent reads as \<open>None\<close>.
\<close>

datatype jsval =
    JUndefined
  | JNull
  | JBool bool
  | JNum int
  | JStr string
  | JArr "jsval list"
  | JObj "(string \<times> jsval) list"

type_synonym js_object = "(string \<times> jsval) list"

text \<open>
  Vitest's \<open>describe\<close>, \<open>describe.only\<close>, \<open>describe.skip\<close> and \<open>it\<close>, \<open>it.only\<close>,
  \<open>it.skip\<close>: a registration is a tree of groups with leaf tests. A label is either a
  string of the source or the rendering \<open>util.inspect(v)\<close> of a value, which is Node's
  function and stays uninterpreted.
\<close>

datatype modifier = Plain | Only | Skip

datatype label = Text string | Inspect jsval

datatype 'f suite =
    Describe modifier label "'f suite list"
  | It modifier string 'f

section \<open>The schema types (lines 5-160)\<close>

record test_case =
  code :: string
  description :: "string option"
  only :: "bool option"
  skip :: "bool option"

record warning =
  message :: "string option"
  line :: "int option"
  column :: "int option"
  endLine :: "int option"
  endColumn :: "int option"

text \<open>
  \<open>RejectTestCase = TestCase & Warning & {fixed, unfixable, warnings}\<close>: the intersection
  is the record of the three parts; \<open>own_warning\<close> holds the case's own \<open>Warning\<close>
  fields, which is what the case is when the source reads it as a \<open>Warning\<close>.
\<close>

record reject_test_case = test_case +
  own_warning :: warning
  fixed :: "string option"
  unfixable :: "bool option"
  warnings :: "warning list option"

datatype plugins = Path string | Paths "string list"

text \<open>
  An entry of \<open>accept\<close> or \<open>reject\<close> is \<open>None\<close> where the array holds \<open>null\<close> or
  \<open>undefined\<close>. The fields \<open>fix\<close>, \<open>only\<close> and \<open>skip\<close> of the schema carry the suffix
  \<open>_s\<close>.
\<close>

record test_schema =
  ruleName :: string
  config :: jsval
  accept :: "test_case option list option"
  reject :: "reject_test_case option list option"
  fix_s :: "bool option"
  plugins :: "plugins option"
  customSyntax :: "string option"
  codeFilename :: "string option"
  only_s :: "bool option"
  skip_s :: "bool option"

record get_test_rule_options =
  plugins_o :: "plugins option"

section \<open>The linting engine\<close>

text \<open>
  The objects exchanged with the engine. Where a property name of the source is already
  a field of the schema types, the field here carries a prefix or suffix: \<open>plugins_o\<close>
  is \<open>options.plugins\<close> of the factory, \<open>plugins_c\<close> is \<open>plugins\<close> of the engine
  configuration, \<open>opt_code\<close>, \<open>opt_config\<close>, \<open>opt_customSyntax\<close>, \<open>opt_codeFilename\<close> and
  \<open>opt_fix\<close> are the lint options (\<open>opt_fix = None\<close> when the options have no \<open>fix\<close>),
  \<open>res_warnings\<close> is \<open>warnings\<close> of a result entry and \<open>postcssResult\<close> its
  \<open>_postcssResult\<close>.
\<close>

record stylelint_config =
  plugins_c :: "plugins option"
  rules :: "(string \<times> jsval) list"

record lint_options =
  opt_code :: string
  opt_config :: stylelint_config
  opt_customSyntax :: "string option"
  opt_codeFilename :: "string option"
  opt_fix :: "bool option"

datatype syntax_t = Syntax string

text \<open>The root node of the processed tree is known by its method \<open>toString(syntax)\<close>.\<close>

datatype root = Root (toString: "syntax_t option \<Rightarrow> string")

text \<open>The property \<open>syntax\<close> of the processing options carries the suffix \<open>_o\<close>.\<close>

record postcss_opts =
  syntax_o :: "syntax_t option"

record postcss_result =
  root :: "root option"
  opts :: "postcss_opts option"

record lint_result =
  res_warnings :: "js_object list"
  parseErrors :: "jsval list"
  invalidOptionWarnings :: "js_object list"
  postcssResult :: "postcss_result option"

record linter_result =
  results :: "lint_result list"

text \<open>
  What ends a leaf test early: a failed \<open>expect\<close> (named by the expression of the
  source, or by the message the source gives it), a thrown \<open>Error\<close> or \<open>TypeError\<close>, or
  the engine's promise rejecting.
\<close>

datatype failure =
    AssertionError string
  | Error string
  | TypeError string
  | Rejected string

type_synonym engine = "lint_options \<Rightarrow> failure + linter_result"

text \<open>
  A run of a leaf test: the engine invocations it made, in order, and how it ended.
\<close>

type_synonym 'a run = "lint_options list \<times> (failure + 'a)"

definition finish :: "'a \<Rightarrow> 'a run" where
  "finish x = ([], Inr x)"

definition throw :: "failure \<Rightarrow> 'a run" where
  "throw e = ([], Inl e)"

definition bind_run :: "'a run \<Rightarrow> ('a \<Rightarrow> 'b run) \<Rightarrow> 'b run" where
  "bind_run m k =
     (case m of
        (calls, Inl e) \<Rightarrow> (calls, Inl e)
      | (calls, Inr x) \<Rightarrow> (case k x of (calls', r) \<Rightarrow> (calls @ calls', r)))"

definition await_lint :: "engine \<Rightarrow> lint_options \<Rightarrow> linter_result run" where
  "await_lint lint options = ([options], lint options)"

definition expect :: "bool \<Rightarrow> string \<Rightarrow> unit run" where
  "expect holds what = (if holds then finish () else throw (AssertionError what))"

section \<open>JavaScript truthiness and indexing\<close>

definition truthy :: "bool option \<Rightarrow> bool" where
  "truthy b = (b = Some True)"

definition truthy_string :: "string option \<Rightarrow> bool" where
  "truthy_string s = (case s of None \<Rightarrow> False | Some t \<Rightarrow> t \<noteq> [])"

text \<open>A string is falsy when empty; every array is truthy, the empty one too.\<close>

definition truthy_plugins :: "plugins option \<Rightarrow> bool" where
  "truthy_plugins p =
     (case p of None \<Rightarrow> False | Some (Path s) \<Rightarrow> s \<noteq> [] | Some (Paths ps) \<Rightarrow> True)"

text \<open>\<open>xs[i]\<close> is \<open>undefined\<close> out of range.\<close>

definition index :: "'a list \<Rightarrow> nat \<Rightarrow> 'a option" where
  "index xs i = (if i < length xs then Some (xs ! i) else None)"

text \<open>
  \<open>output.results[0]\<close> followed by a property read: on an empty \<open>results\<close> the read is
  on \<open>undefined\<close> and the runtime throws its own \<open>TypeError\<close>.
\<close>

definition first_result :: "linter_result \<Rightarrow> lint_result run" where
  "first_result output =
     (case index (results output) 0 of
        None \<Rightarrow> throw (TypeError ''Cannot read properties of undefined'')
      | Some r \<Rightarrow> finish r)"

section \<open>Vitest's \<open>toMatchObject\<close>\<close>

text \<open>
  \<open>toMatchObject\<close> is Vitest's \<open>equals\<close> with the tester \<open>subsetEquality\<close>. Against an
  expected plain object, the received value must have every property of the expected
  object, with a value that matches the expected value in the same way, recursively;
  properties the expected object lacks are not compared. Against an expected array, the
  received value must be an array of the same length whose elements match element by
  element, again recursively. Against any other expected value the two must be equal.

  \<open>property_of\<close> is the property read on the received value: an object has its own
  properties, an array has its indices (\<open>decimal\<close> writes an index as a key) and its
  \<open>length\<close>, and no other value has a property.
\<close>

fun decimal :: "nat \<Rightarrow> string" where
  "decimal n =
     (if n < 10 then [char_of (48 + n)]
      else decimal (n div 10) @ [char_of (48 + n mod 10)])"

declare decimal.simps [simp del]

definition property_of :: "jsval \<Rightarrow> string \<Rightarrow> jsval option" where
  "property_of object key =
     (case object of
        JObj ps \<Rightarrow> map_of ps key
      | JArr xs \<Rightarrow>
          if key = ''length'' then Some (JNum (int (length xs)))
          else map_of (zip (map decimal [0..<length xs]) xs) key
      | _ \<Rightarrow> None)"

function subsetEquality :: "jsval \<Rightarrow> jsval \<Rightarrow> bool" where
  "subsetEquality object (JObj expected) =
     list_all (\<lambda>(key, val).
        case property_of object key of
          None \<Rightarrow> False
        | Some v \<Rightarrow> subsetEquality v val) expected"
| "subsetEquality object (JArr expected) =
     (case object of
        JArr xs \<Rightarrow>
          length xs = length expected \<and>
          list_all (\<lambda>(x, val). subsetEquality x val) (zip xs expected)
      | _ \<Rightarrow> False)"
| "subsetEquality object JUndefined = (object = JUndefined)"
| "subsetEquality object JNull = (object = JNull)"
| "subsetEquality object (JBool b) = (object = JBool b)"
| "subsetEquality object (JNum n) = (object = JNum n)"
| "subsetEquality object (JStr s) = (object = JStr s)"
  by pat_completeness auto

termination
proof -
  have elem: "size x < Suc (size_list size xs)" if "x \<in> set xs" for x :: jsval and xs
    using that by (induction xs) auto
  have pair: "size val < Suc (size_list (size_prod (\<lambda>_. 0) size) ps)"
    if "(key, val) \<in> set ps" for key :: string and val :: jsval and ps
    using that by (induction ps) auto
  show ?thesis
    by (relation "measure (\<lambda>(object, expected). size expected)")
       (auto dest: pair elem set_zip_rightD)
qed

text \<open>
  \<open>expect(actual).toMatchObject(expected)\<close> for an expected object, on a received
  value that is an object or, where the source indexes an array out of range,
  \<open>undefined\<close>.
\<close>

definition toMatchObject :: "js_object option \<Rightarrow> js_object \<Rightarrow> bool" where
  "toMatchObject actual expected =
     subsetEquality (case actual of None \<Rightarrow> JUndefined | Some a \<Rightarrow> JObj a) (JObj expected)"

text \<open>
  \<open>expect(result).toMatchObject({warnings: ws, parseErrors: []})\<close>, lines 303-306: the
  received \<open>warnings\<close> against the array \<open>ws\<close> of objects, the received \<open>parseErrors\<close>
  against the empty array.
\<close>

definition toMatchObject_result :: "lint_result option \<Rightarrow> js_object list \<Rightarrow> bool" where
  "toMatchObject_result actual ws =
     (case actual of
        None \<Rightarrow> False
      | Some r \<Rightarrow>
          list_all2 (\<lambda>a e. toMatchObject (Some a) e) (res_warnings r) ws \<and>
          parseErrors r = [])"

section \<open>\<open>getOutputCss\<close> (lines 352-360)\<close>

definition getOutputCss :: "linter_result \<Rightarrow> string run" where
  "getOutputCss output =
     bind_run (first_result output) (\<lambda>r.
       case postcssResult r of
         None \<Rightarrow> throw (TypeError ''Invalid result'')
       | Some result \<Rightarrow>
           (case (root result, opts result) of
              (Some rt, Some os) \<Rightarrow> finish (toString rt (syntax_o os))
            | _ \<Rightarrow> throw (TypeError ''Invalid result'')))"

section \<open>\<open>setupTestCases\<close> (lines 320-350)\<close>

definition setupTestCases ::
  "string \<Rightarrow> 'a test_case_scheme option list option \<Rightarrow> test_schema \<Rightarrow>
   ('a test_case_scheme \<Rightarrow> 'f) \<Rightarrow> 'f suite list" where
  "setupTestCases name cases schema comparisons =
     (case cases of
        None \<Rightarrow> []
      | Some cs \<Rightarrow>
          if length cs = 0 then []
          else
            let testGroup =
              (if truthy (only_s schema) then Only
               else if truthy (skip_s schema) then Skip
               else Plain)
            in
            [Describe testGroup (Text name)
               (concat (map (\<lambda>testCase.
                  case testCase of
                    None \<Rightarrow> []
                  | Some tc \<Rightarrow>
                      let spec =
                        (if truthy (only tc) then Only
                         else if truthy (skip tc) then Skip
                         else Plain)
                      in
                      [Describe Plain (Inspect (config schema))
                         [Describe Plain (Inspect (JStr (code tc)))
                            [It spec
                               (if truthy_string (description tc)
                                then the (description tc)
                                else ''no description'')
                               (comparisons tc)]]]) cs))])"

section \<open>\<open>getTestRule\<close> (lines 165-312)\<close>

definition stylelintConfig :: "get_test_rule_options \<Rightarrow> test_schema \<Rightarrow> stylelint_config" where
  "stylelintConfig options schema =
     \<lparr> plugins_c =
         (if truthy_plugins (plugins_o options) then plugins_o options else plugins schema),
       rules = [(ruleName schema, config schema)] \<rparr>"

definition stylelintOptions ::
  "stylelint_config \<Rightarrow> test_schema \<Rightarrow> 'a test_case_scheme \<Rightarrow> lint_options" where
  "stylelintOptions cfg schema testCase =
     \<lparr> opt_code = code testCase,
       opt_config = cfg,
       opt_customSyntax = customSyntax schema,
       opt_codeFilename = codeFilename schema,
       opt_fix = None \<rparr>"

text \<open>The accept comparisons, lines 179-207.\<close>

definition accept_comparisons ::
  "stylelint_config \<Rightarrow> test_schema \<Rightarrow> 'a test_case_scheme \<Rightarrow> engine \<Rightarrow> unit run" where
  "accept_comparisons cfg schema testCase lint =
     bind_run (await_lint lint (stylelintOptions cfg schema testCase)) (\<lambda>output.
     bind_run (first_result output) (\<lambda>r.
     bind_run (expect (res_warnings r = [])
                 ''expect(output.results[0].warnings).toEqual([])'') (\<lambda>_.
     bind_run (expect (parseErrors r = [])
                 ''expect(output.results[0].parseErrors).toEqual([])'') (\<lambda>_.
     bind_run (expect (invalidOptionWarnings r = [])
                 ''expect(output.results[0].invalidOptionWarnings).toEqual([])'') (\<lambda>_.
     if \<not> truthy (fix_s schema) then finish ()
     else
       bind_run (await_lint lint
                   ((stylelintOptions cfg schema testCase)\<lparr>opt_fix := Some True\<rparr>))
         (\<lambda>outputAfterFix.
       bind_run (getOutputCss outputAfterFix) (\<lambda>fixedCode.
       expect (fixedCode = code testCase) ''expect(fixedCode).toBe(testCase.code)'')))))))"

text \<open>
  The object the source builds from a warning, lines 244-256: the five properties, then
  every property whose value is \<open>undefined\<close> deleted.
\<close>

definition expectedWarning :: "warning \<Rightarrow> js_object" where
  "expectedWarning w =
     List.map_filter (\<lambda>(key, val). map_option (Pair key) val)
       [(''text'', map_option JStr (message w)),
        (''line'', map_option JNum (line w)),
        (''column'', map_option JNum (column w)),
        (''endLine'', map_option JNum (endLine w)),
        (''endColumn'', map_option JNum (endColumn w))]"

text \<open>\<open>warnings.forEach((warning, index) => ...)\<close>, lines 238-259.\<close>

fun forEach_warning :: "js_object list \<Rightarrow> nat \<Rightarrow> warning list \<Rightarrow> unit run" where
  "forEach_warning actualWarnings i [] = finish ()"
| "forEach_warning actualWarnings i (w # ws) =
     bind_run (expect (message w \<noteq> None)
                 ''Expected \"reject\" test case to have a \"message\" property'') (\<lambda>_.
     bind_run (expect (toMatchObject (index actualWarnings i) (expectedWarning w))
                 ''expect(actualWarnings[index]).toMatchObject(expectedWarning)'') (\<lambda>_.
     forEach_warning actualWarnings (Suc i) ws))"

text \<open>
  The reject comparisons, lines 214-308, in two parts. \<open>fix_comparisons\<close> is the part
  from line 261 to the end: the early return when the schema has no \<open>fix\<close>, the check
  that the case has \<open>fixed\<close> or \<open>unfixable\<close>, the autofix pass and the lint of the fixed
  code.
\<close>

definition fix_comparisons ::
  "stylelint_config \<Rightarrow> test_schema \<Rightarrow> reject_test_case \<Rightarrow> engine \<Rightarrow> unit run" where
  "fix_comparisons cfg schema testCase lint =
     (if \<not> truthy (fix_s schema) then finish ()
      else if truthy (fix_s schema) \<and> \<not> truthy_string (fixed testCase) \<and>
              fixed testCase \<noteq> Some '''' \<and> \<not> truthy (unfixable testCase)
      then throw (Error
        ''If using { fix: true } in test schema, all reject cases must have { fixed: .. }'')
      else
        bind_run (await_lint lint
                    ((stylelintOptions cfg schema testCase)\<lparr>opt_fix := Some True\<rparr>))
          (\<lambda>outputAfterFix.
        bind_run (getOutputCss outputAfterFix) (\<lambda>fixedCode.
        bind_run
          (if \<not> truthy (unfixable testCase) then
             bind_run (expect (Some fixedCode = fixed testCase)
                         ''expect(fixedCode).toBe(testCase.fixed)'') (\<lambda>_.
             expect (fixedCode \<noteq> code testCase)
               ''expect(fixedCode).not.toBe(testCase.code)'')
           else
             bind_run
               (if truthy_string (fixed testCase)
                then expect (Some fixedCode = fixed testCase)
                       ''expect(fixedCode).toBe(testCase.fixed)''
                else finish ()) (\<lambda>_.
             expect (fixedCode = code testCase) ''expect(fixedCode).toBe(testCase.code)''))
          (\<lambda>_.
        bind_run (await_lint lint
                    ((stylelintOptions cfg schema testCase)
                       \<lparr>opt_code := fixedCode, opt_fix := unfixable testCase\<rparr>))
          (\<lambda>outputAfterLintOnFixedCode.
        bind_run (first_result outputAfterFix) (\<lambda>rf.
        expect (toMatchObject_result (index (results outputAfterLintOnFixedCode) 0)
                  (res_warnings rf))
          ''expect(outputAfterLintOnFixedCode.results[0]).toMatchObject({warnings, parseErrors: []})''
        ))))))"

definition reject_comparisons ::
  "stylelint_config \<Rightarrow> test_schema \<Rightarrow> reject_test_case \<Rightarrow> engine \<Rightarrow> unit run" where
  "reject_comparisons cfg schema testCase lint =
     bind_run (await_lint lint (stylelintOptions cfg schema testCase)) (\<lambda>outputAfterLint.
     bind_run (first_result outputAfterLint) (\<lambda>r.
     let actualWarnings = invalidOptionWarnings r @ res_warnings r in
     bind_run (expect (parseErrors r = [])
                 ''expect(outputAfterLint.results[0]).toMatchObject({parseErrors: []})'') (\<lambda>_.
     bind_run (expect (length actualWarnings =
                         (case warnings testCase of Some ws \<Rightarrow> length ws | None \<Rightarrow> 1))
                 ''expect(actualWarnings).toHaveLength(...)'') (\<lambda>_.
     bind_run (forEach_warning actualWarnings 0
                 (case warnings testCase of Some ws \<Rightarrow> ws | None \<Rightarrow> [own_warning testCase]))
       (\<lambda>_.
     fix_comparisons cfg schema testCase lint)))))"

text \<open>
  \<open>getTestRule(options)(schema)\<close>: the group of the rule with the accept and the reject
  groups in it. A leaf test is a function of the engine it is run against.
\<close>

definition getTestRule ::
  "get_test_rule_options \<Rightarrow> test_schema \<Rightarrow> (engine \<Rightarrow> unit run) suite" where
  "getTestRule options schema =
     Describe Plain (Text (ruleName schema))
       (setupTestCases ''accept'' (accept schema) schema
          (accept_comparisons (stylelintConfig options schema) schema) @
        setupTestCases ''reject'' (reject schema) schema
          (reject_comparisons (stylelintConfig options schema) schema))"

section \<open>Reading a registration\<close>

text \<open>
  The leaf tests of a registration, in the order of registration: for each, the labels of
  the groups around it from the outermost to the innermost and its name
  (\<open>leaf_paths\<close>), and its test function (\<open>leaf_tests\<close>).
\<close>

fun leaf_paths :: "'f suite \<Rightarrow> (label list \<times> string) list" where
  "leaf_paths (It m name f) = [([], name)]"
| "leaf_paths (Describe m l kids) =
     map (\<lambda>(path, name). (l # path, name)) (concat (map leaf_paths kids))"

fun leaf_tests :: "'f suite \<Rightarrow> 'f list" where
  "leaf_tests (It m name f) = [f]"
| "leaf_tests (Describe m l kids) = concat (map leaf_tests kids)"

section \<open>Example schemas and engines\<close>

text \<open>
  The schema of the specification's first example: rule \<open>no-foo\<close> with configuration
  \<open>true\<close>, the accept case \<open>a{}\<close> and the reject case \<open>b{}\<close> with the message
  \<open>unexpected b\<close> at line 1, column 1.
\<close>

definition example_accept :: test_case where
  "example_accept = \<lparr> code = ''a{}'', description = None, only = None, skip = None \<rparr>"

definition example_reject :: reject_test_case where
  "example_reject =
     \<lparr> code = ''b{}'', description = None, only = None, skip = None,
       own_warning = \<lparr> message = Some ''unexpected b'', line = Some 1, column = Some 1,
                       endLine = None, endColumn = None \<rparr>,
       fixed = None, unfixable = None, warnings = None \<rparr>"

definition example_schema :: test_schema where
  "example_schema =
     \<lparr> ruleName = ''no-foo'', config = JBool True,
       accept = Some [Some example_accept], reject = Some [Some example_reject],
       fix_s = None, plugins = None, customSyntax = None, codeFilename = None,
       only_s = None, skip_s = None \<rparr>"

text \<open>
  An engine for the rule \<open>no-foo\<close> that has no autofix: it reports one warning on every
  source but \<open>a{}\<close>, and its processed tree renders the source it was given.
\<close>

definition example_warning :: js_object where
  "example_warning =
     [(''line'', JNum 1), (''column'', JNum 1), (''endLine'', JNum 1), (''endColumn'', JNum 2),
      (''rule'', JStr ''no-foo''), (''severity'', JStr ''error''),
      (''text'', JStr ''unexpected b'')]"

definition example_result :: "string \<Rightarrow> lint_result" where
  "example_result source =
     \<lparr> res_warnings = (if source = ''a{}'' then [] else [example_warning]),
       parseErrors = [],
       invalidOptionWarnings = [],
       postcssResult =
         Some \<lparr> root = Some (Root (\<lambda>stringifier. source)),
                opts = Some \<lparr> syntax_o = None \<rparr> \<rparr> \<rparr>"

definition example_engine :: engine where
  "example_engine options = Inr \<lparr> results = [example_result (opt_code options)] \<rparr>"

definition example_config :: stylelint_config where
  "example_config = \<lparr> plugins_c = None, rules = [(''no-foo'', JBool True)] \<rparr>"

text \<open>
  The specification's second example: the reject case \<open>.Foo{}\<close> with \<open>fixed: '.foo{}'\<close>.
  The engine reports \<open>expected lowercase\<close> on \<open>.Foo{}\<close>; its autofix pass renders
  \<open>.foo{}\<close> and leaves one warning, reported without a position and with the type of
  its node only; linting without autofix reports every warning with its position and
  with the type and the selector of its node.
\<close>

definition lowercase_reject :: reject_test_case where
  "lowercase_reject =
     \<lparr> code = ''.Foo{}'', description = None, only = None, skip = None,
       own_warning = \<lparr> message = Some ''expected lowercase'', line = None, column = None,
                       endLine = None, endColumn = None \<rparr>,
       fixed = Some ''.foo{}'', unfixable = None, warnings = None \<rparr>"

definition lowercase_fix_result :: lint_result where
  "lowercase_fix_result =
     \<lparr> res_warnings =
         [[(''text'', JStr ''residual''), (''node'', JObj [(''type'', JStr ''rule'')])]],
       parseErrors = [],
       invalidOptionWarnings = [],
       postcssResult =
         Some \<lparr> root = Some (Root (\<lambda>stringifier. ''.foo{}'')),
                opts = Some \<lparr> syntax_o = None \<rparr> \<rparr> \<rparr>"

definition lowercase_lint_result :: "string \<Rightarrow> lint_result" where
  "lowercase_lint_result source =
     \<lparr> res_warnings =
         [[(''text'', JStr (if source = ''.Foo{}'' then ''expected lowercase'' else ''residual'')),
           (''line'', JNum 1), (''column'', JNum 1),
           (''node'', JObj [(''type'', JStr ''rule''), (''selector'', JStr source)])]],
       parseErrors = [],
       invalidOptionWarnings = [],
       postcssResult =
         Some \<lparr> root = Some (Root (\<lambda>stringifier. source)),
                opts = Some \<lparr> syntax_o = None \<rparr> \<rparr> \<rparr>"

definition lowercase_engine :: engine where
  "lowercase_engine options =
     Inr \<lparr> results =
       [if opt_fix options = Some True then lowercase_fix_result
        else lowercase_lint_result (opt_code options)] \<rparr>"

section \<open>Runs: how the steps compose\<close>

lemma bind_run_Inl: "bind_run (calls, Inl e) k = (calls, Inl e)"
  by (simp add: bind_run_def)

lemma bind_run_Inr: "bind_run (calls, Inr x) k = (calls @ fst (k x), snd (k x))"
  by (simp add: bind_run_def split: prod.splits)

lemmas run_simps = bind_run_Inl bind_run_Inr finish_def throw_def expect_def await_lint_def

lemma first_result_Cons: "results output = r # rs \<Longrightarrow> first_result output = ([], Inr r)"
  by (simp add: first_result_def index_def run_simps)

lemma first_result_Nil:
  "results output = [] \<Longrightarrow>
   first_result output = ([], Inl (TypeError ''Cannot read properties of undefined''))"
  by (simp add: first_result_def index_def run_simps)

section \<open>The matcher on objects\<close>

lemma toMatchObject_Nil: "toMatchObject actual [] = True"
  by (simp add: toMatchObject_def)

lemma toMatchObject_Cons:
  "toMatchObject (Some a) ((k, v) # es) =
     ((case map_of a k of None \<Rightarrow> False | Some x \<Rightarrow> subsetEquality x v) \<and>
      toMatchObject (Some a) es)"
  by (simp add: toMatchObject_def property_of_def)

lemma toMatchObject_undefined: "toMatchObject None (p # es) = False"
  by (cases p) (simp add: toMatchObject_def property_of_def)

lemmas toMatchObject_simps = toMatchObject_Nil toMatchObject_Cons toMatchObject_undefined

lemma toMatchObject_iff:
  "toMatchObject (Some a) e =
     (\<forall>k v. (k, v) \<in> set e \<longrightarrow> (\<exists>x. map_of a k = Some x \<and> subsetEquality x v))"
  by (fastforce simp: toMatchObject_def property_of_def list_all_iff split: option.splits)

section \<open>Fixed-source extraction\<close>

text \<open>
  Claim C9, as the code has it. For every engine result with a first result entry: when
  the entry carries a processed-tree handle with both a root node and processing
  options, \<open>getOutputCss\<close> returns the root rendered with the recorded syntax; when the
  handle, its root or its options are missing, it throws the \<open>TypeError\<close> with the
  message \<open>Invalid result\<close>. For a result without any entry, reading the handle off
  \<open>results[0]\<close> throws the runtime's own \<open>TypeError\<close>. No string is returned in the
  failing cases.
\<close>

theorem getOutputCss_renders_or_throws:
  "(results output = r # rs \<and> postcssResult r = Some p \<and> root p = Some rt \<and> opts p = Some os
      \<longrightarrow> getOutputCss output = ([], Inr (toString rt (syntax_o os)))) \<and>
   (results output = r # rs \<and>
      (postcssResult r = None \<or>
       (\<exists>q. postcssResult r = Some q \<and> (root q = None \<or> opts q = None)))
      \<longrightarrow> getOutputCss output = ([], Inl (TypeError ''Invalid result''))) \<and>
   (results output = []
      \<longrightarrow> getOutputCss output = ([], Inl (TypeError ''Cannot read properties of undefined'')))"
  by (auto simp: getOutputCss_def first_result_Cons first_result_Nil run_simps
        split: option.splits)

text \<open>
  The theorem at three results: one whose entry carries a tree that renders \<open>a{}\<close>,
  one whose entry has no processed-tree handle, and one whose handle has no processing
  options.
\<close>

theorem getOutputCss_renders_or_throws_witness:
  "getOutputCss
     \<lparr> results =
         [\<lparr> res_warnings = [], parseErrors = [], invalidOptionWarnings = [],
            postcssResult = Some \<lparr> root = Some (Root (\<lambda>stringifier. ''a{}'')),
                                   opts = Some \<lparr> syntax_o = None \<rparr> \<rparr> \<rparr>] \<rparr>
     = ([], Inr ''a{}'') \<and>
   getOutputCss
     \<lparr> results =
         [\<lparr> res_warnings = [], parseErrors = [], invalidOptionWarnings = [],
            postcssResult = None \<rparr>] \<rparr>
     = ([], Inl (TypeError ''Invalid result'')) \<and>
   getOutputCss
     \<lparr> results =
         [\<lparr> res_warnings = [], parseErrors = [], invalidOptionWarnings = [],
            postcssResult = Some \<lparr> root = Some (Root (\<lambda>stringifier. ''a{}'')),
                                   opts = None \<rparr> \<rparr>] \<rparr>
     = ([], Inl (TypeError ''Invalid result''))"
proof (intro conjI)
  show "getOutputCss
     \<lparr> results =
         [\<lparr> res_warnings = [], parseErrors = [], invalidOptionWarnings = [],
            postcssResult = Some \<lparr> root = Some (Root (\<lambda>stringifier. ''a{}'')),
                                   opts = Some \<lparr> syntax_o = None \<rparr> \<rparr> \<rparr>] \<rparr>
     = ([], Inr ''a{}'')"
    using getOutputCss_renders_or_throws
      [of "\<lparr> results =
         [\<lparr> res_warnings = [], parseErrors = [], invalidOptionWarnings = [],
            postcssResult = Some \<lparr> root = Some (Root (\<lambda>stringifier. ''a{}'')),
                                   opts = Some \<lparr> syntax_o = None \<rparr> \<rparr> \<rparr>] \<rparr>"
          "\<lparr> res_warnings = [], parseErrors = [], invalidOptionWarnings = [],
            postcssResult = Some \<lparr> root = Some (Root (\<lambda>stringifier. ''a{}'')),
                                   opts = Some \<lparr> syntax_o = None \<rparr> \<rparr> \<rparr>"
          "[]"
          "\<lparr> root = Some (Root (\<lambda>stringifier. ''a{}'')), opts = Some \<lparr> syntax_o = None \<rparr> \<rparr>"
          "Root (\<lambda>stringifier. ''a{}'')"
          "\<lparr> syntax_o = None \<rparr>"]
    by simp
  show "getOutputCss
     \<lparr> results =
         [\<lparr> res_warnings = [], parseErrors = [], invalidOptionWarnings = [],
            postcssResult = None \<rparr>] \<rparr>
     = ([], Inl (TypeError ''Invalid result''))"
    using getOutputCss_renders_or_throws
      [of "\<lparr> results =
         [\<lparr> res_warnings = [], parseErrors = [], invalidOptionWarnings = [],
            postcssResult = None \<rparr>] \<rparr>"
          "\<lparr> res_warnings = [], parseErrors = [], invalidOptionWarnings = [],
            postcssResult = None \<rparr>"
          "[]"]
    by simp
  show "getOutputCss
     \<lparr> results =
         [\<lparr> res_warnings = [], parseErrors = [], invalidOptionWarnings = [],
            postcssResult = Some \<lparr> root = Some (Root (\<lambda>stringifier. ''a{}'')),
                                   opts = None \<rparr> \<rparr>] \<rparr>
     = ([], Inl (TypeError ''Invalid result''))"
    using getOutputCss_renders_or_throws
      [of "\<lparr> results =
         [\<lparr> res_warnings = [], parseErrors = [], invalidOptionWarnings = [],
            postcssResult = Some \<lparr> root = Some (Root (\<lambda>stringifier. ''a{}'')),
                                   opts = None \<rparr> \<rparr>] \<rparr>"
          "\<lparr> res_warnings = [], parseErrors = [], invalidOptionWarnings = [],
            postcssResult = Some \<lparr> root = Some (Root (\<lambda>stringifier. ''a{}'')),
                                   opts = None \<rparr> \<rparr>"
          "[]"]
    by simp
qed

text \<open>
  Claim C9 as stated fails on the result with no entry: what is thrown there is not the
  \<open>TypeError\<close> with the message \<open>Invalid result\<close>.
\<close>

theorem getOutputCss_no_entry_counterexample:
  "getOutputCss \<lparr> results = [] \<rparr> =
     ([], Inl (TypeError ''Cannot read properties of undefined'')) \<and>
   getOutputCss \<lparr> results = [] \<rparr> \<noteq> ([], Inl (TypeError ''Invalid result''))"
  by (simp add: getOutputCss_def first_result_Nil run_simps)

section \<open>Registration of the cases\<close>

lemma leaf_paths_kids:
  "concat (map leaf_paths (concat (map (\<lambda>c. case c of None \<Rightarrow> [] | Some tc \<Rightarrow>
      [Describe Plain l1 [Describe Plain (l2 tc) [It (m tc) (n tc) (f tc)]]]) cs))) =
   map (\<lambda>tc. ([l1, l2 tc], n tc))
     (concat (map (\<lambda>c. case c of None \<Rightarrow> [] | Some tc \<Rightarrow> [tc]) cs))"
  by (induction cs) (auto split: option.splits)

lemma leaf_tests_kids:
  "concat (map leaf_tests (concat (map (\<lambda>c. case c of None \<Rightarrow> [] | Some tc \<Rightarrow>
      [Describe Plain l1 [Describe Plain (l2 tc) [It (m tc) (n tc) (f tc)]]]) cs))) =
   map f (concat (map (\<lambda>c. case c of None \<Rightarrow> [] | Some tc \<Rightarrow> [tc]) cs))"
  by (induction cs) (auto split: option.splits)

text \<open>
  Claim C3, as the code has it. Every case that is registered becomes one leaf test
  directly inside a group labelled by the rendering of the case's source text, which is
  itself inside a group labelled by the rendering of the rule configuration, which is
  inside the group named \<open>accept\<close> or \<open>reject\<close>: the configuration group is the outer one
  and the source-text group the inner one. The leaf's name is the case's description,
  or the literal \<open>no description\<close> when the description is absent or the empty string.
\<close>

theorem setupTestCases_nesting:
  "concat (map leaf_paths (setupTestCases name cases schema comparisons)) =
     (case cases of
        None \<Rightarrow> []
      | Some cs \<Rightarrow>
          map (\<lambda>tc. ([Text name, Inspect (config schema), Inspect (JStr (code tc))],
                      if description tc = None \<or> description tc = Some []
                      then ''no description'' else the (description tc)))
            (concat (map (\<lambda>c. case c of None \<Rightarrow> [] | Some tc \<Rightarrow> [tc]) cs)))"
proof (cases cases)
  case None
  then show ?thesis by (simp add: setupTestCases_def)
next
  case (Some cs)
  show ?thesis
  proof (cases "cs = []")
    case True
    with Some show ?thesis by (simp add: setupTestCases_def)
  next
    case False
    with Some show ?thesis
      by (simp add: setupTestCases_def Let_def leaf_paths_kids comp_def truthy_string_def
            split: option.splits)
  qed
qed

text \<open>The theorem at the accept cases of the example schema.\<close>

theorem setupTestCases_nesting_witness:
  "concat (map leaf_paths (setupTestCases ''accept'' (accept example_schema) example_schema
      (accept_comparisons (stylelintConfig \<lparr> plugins_o = None \<rparr> example_schema)
         example_schema)))
   = [([Text ''accept'', Inspect (JBool True), Inspect (JStr ''a{}'')], ''no description'')]"
  using setupTestCases_nesting [of "''accept''" "accept example_schema" example_schema
      "accept_comparisons (stylelintConfig \<lparr> plugins_o = None \<rparr> example_schema)
         example_schema"]
  by (simp add: example_schema_def example_accept_def)

text \<open>
  Claim C3 as stated puts the source-text group outside and the configuration group
  inside. On the example schema the groups around each leaf are, from the outermost:
  the rule, \<open>accept\<close> or \<open>reject\<close>, the configuration \<open>true\<close>, the source text; not the
  order of the claim. And a case whose description is the empty string is named
  \<open>no description\<close>, not by its description.
\<close>

theorem nesting_counterexample:
  "map fst (leaf_paths (getTestRule \<lparr> plugins_o = None \<rparr> example_schema)) =
     [[Text ''no-foo'', Text ''accept'', Inspect (JBool True), Inspect (JStr ''a{}'')],
      [Text ''no-foo'', Text ''reject'', Inspect (JBool True), Inspect (JStr ''b{}'')]] \<and>
   map fst (leaf_paths (getTestRule \<lparr> plugins_o = None \<rparr> example_schema)) \<noteq>
     [[Text ''no-foo'', Text ''accept'', Inspect (JStr ''a{}''), Inspect (JBool True)],
      [Text ''no-foo'', Text ''reject'', Inspect (JStr ''b{}''), Inspect (JBool True)]] \<and>
   map snd (leaf_paths (getTestRule \<lparr> plugins_o = None \<rparr>
       (example_schema \<lparr> accept := Some [Some (example_accept \<lparr> description := Some '''' \<rparr>)],
                         reject := None \<rparr>))) = [''no description'']"
  by (simp add: getTestRule_def setupTestCases_def example_schema_def example_accept_def
        example_reject_def truthy_def truthy_string_def)

text \<open>
  Claim C10. In the cases list handed to \<open>setupTestCases\<close>, an entry that is \<open>null\<close> or
  \<open>undefined\<close> is skipped: the registration is the one made without that entry (when it
  was the only kind of entry, the group of the cases is registered empty), and the leaf
  tests registered are exactly the comparisons of the remaining cases, in their order.
  Registration is a total function: it does not fail.
\<close>

theorem setupTestCases_skips_holes:
  "setupTestCases name (Some (xs @ None # ys)) schema comparisons =
     (if xs @ ys = []
      then [Describe (if truthy (only_s schema) then Only
                      else if truthy (skip_s schema) then Skip else Plain) (Text name) []]
      else setupTestCases name (Some (xs @ ys)) schema comparisons) \<and>
   concat (map leaf_tests (setupTestCases name (Some cs) schema comparisons)) =
     map comparisons (concat (map (\<lambda>c. case c of None \<Rightarrow> [] | Some tc \<Rightarrow> [tc]) cs))"
proof
  show "setupTestCases name (Some (xs @ None # ys)) schema comparisons =
     (if xs @ ys = []
      then [Describe (if truthy (only_s schema) then Only
                      else if truthy (skip_s schema) then Skip else Plain) (Text name) []]
      else setupTestCases name (Some (xs @ ys)) schema comparisons)"
    by (simp add: setupTestCases_def Let_def)
  show "concat (map leaf_tests (setupTestCases name (Some cs) schema comparisons)) =
     map comparisons (concat (map (\<lambda>c. case c of None \<Rightarrow> [] | Some tc \<Rightarrow> [tc]) cs))"
    by (simp add: setupTestCases_def Let_def leaf_tests_kids)
qed

text \<open>The theorem at the accept cases \<open>[undefined, {code: 'a{}'}]\<close>.\<close>

theorem setupTestCases_skips_holes_witness:
  "setupTestCases ''accept'' (Some [None, Some example_accept]) example_schema
     (accept_comparisons (stylelintConfig \<lparr> plugins_o = None \<rparr> example_schema) example_schema)
   = setupTestCases ''accept'' (Some [Some example_accept]) example_schema
       (accept_comparisons (stylelintConfig \<lparr> plugins_o = None \<rparr> example_schema)
          example_schema) \<and>
   concat (map leaf_tests
     (setupTestCases ''accept'' (Some [None, Some example_accept]) example_schema
        (accept_comparisons (stylelintConfig \<lparr> plugins_o = None \<rparr> example_schema)
           example_schema)))
   = [accept_comparisons (stylelintConfig \<lparr> plugins_o = None \<rparr> example_schema)
        example_schema example_accept]"
  using setupTestCases_skips_holes [of "''accept''" "[]" "[Some example_accept]" example_schema
      "accept_comparisons (stylelintConfig \<lparr> plugins_o = None \<rparr> example_schema) example_schema"
      "[None, Some example_accept]"]
    setupTestCases_skips_holes [of "''accept''" "[]" "[Some example_accept]" example_schema
      "accept_comparisons (stylelintConfig \<lparr> plugins_o = None \<rparr> example_schema) example_schema"
      "[Some example_accept]"]
  by simp

section \<open>The reject comparisons: the lint of the case\<close>

lemma toMatchObject_expectedWarning:
  "toMatchObject (Some a) (expectedWarning w) =
     ((\<forall>m. message w = Some m \<longrightarrow> map_of a ''text'' = Some (JStr m)) \<and>
      (\<forall>n. line w = Some n \<longrightarrow> map_of a ''line'' = Some (JNum n)) \<and>
      (\<forall>n. column w = Some n \<longrightarrow> map_of a ''column'' = Some (JNum n)) \<and>
      (\<forall>n. endLine w = Some n \<longrightarrow> map_of a ''endLine'' = Some (JNum n)) \<and>
      (\<forall>n. endColumn w = Some n \<longrightarrow> map_of a ''endColumn'' = Some (JNum n)))"
  by (cases "message w"; cases "line w"; cases "column w"; cases "endLine w"; cases "endColumn w")
     (auto simp: toMatchObject_simps expectedWarning_def List.map_filter_simps
        split: option.splits)

lemma toMatchObject_undefined_expectedWarning:
  "message w \<noteq> None \<Longrightarrow> toMatchObject None (expectedWarning w) = False"
  by (auto simp: expectedWarning_def List.map_filter_simps toMatchObject_simps)

lemma forEach_warning_calls: "fst (forEach_warning actual k ws) = []"
  by (induction ws arbitrary: k) (simp_all add: run_simps)

lemma forEach_warning_passes:
  "(forEach_warning actual k ws = ([], Inr ())) =
     (\<forall>i < length ws. message (ws ! i) \<noteq> None \<and>
        toMatchObject (index actual (k + i)) (expectedWarning (ws ! i)))"
proof (induction ws arbitrary: k)
  case Nil
  then show ?case by (simp add: run_simps)
next
  case (Cons w ws)
  have split: "(\<forall>i < Suc (length ws). P i) = (P 0 \<and> (\<forall>i < length ws. P (Suc i)))" for P
    by (auto simp: less_Suc_eq_0_disj)
  show ?case
    by (simp add: run_simps Cons.IH split)
qed

lemma forEach_warning_append:
  "forEach_warning actual k xs = ([], Inr ()) \<Longrightarrow>
   forEach_warning actual k (xs @ zs) = forEach_warning actual (k + length xs) zs"
proof (induction xs arbitrary: k)
  case Nil
  then show ?case by simp
next
  case (Cons x xs)
  from Cons.prems have m: "message x \<noteq> None"
    and t: "toMatchObject (index actual k) (expectedWarning x)"
    and r: "forEach_warning actual (Suc k) xs = ([], Inr ())"
    by (auto simp: run_simps split: if_splits)
  from Cons.IH [OF r] m t show ?case by (simp add: run_simps)
qed


lemma forEach_warning_cases:
  obtains (passes) "forEach_warning actual k ws = ([], Inr ())"
        | (fails) e where "forEach_warning actual k ws = ([], Inl e)"
proof (cases "forEach_warning actual k ws")
  case (Pair c res)
  with forEach_warning_calls [of actual k ws] have c: "c = []" by simp
  show ?thesis
  proof (cases res)
    case (Inl e)
    with Pair c fails show ?thesis by simp
  next
    case (Inr u)
    with Pair c passes show ?thesis by simp
  qed
qed

lemma reject_lint_rejected:
  "lint (stylelintOptions cfg schema tc) = Inl e \<Longrightarrow>
   reject_comparisons cfg schema tc lint = ([stylelintOptions cfg schema tc], Inl e)"
  by (simp add: reject_comparisons_def run_simps)

lemma reject_lint_no_entry:
  "lint (stylelintOptions cfg schema tc) = Inr output \<Longrightarrow> results output = [] \<Longrightarrow>
   reject_comparisons cfg schema tc lint =
     ([stylelintOptions cfg schema tc], Inl (TypeError ''Cannot read properties of undefined''))"
  by (simp add: reject_comparisons_def run_simps first_result_Nil)

lemma reject_lint_phase:
  assumes "lint (stylelintOptions cfg schema tc) = Inr output" and "results output = r # rs"
  shows "reject_comparisons cfg schema tc lint =
     (if parseErrors r \<noteq> [] then
        ([stylelintOptions cfg schema tc], Inl (AssertionError
           ''expect(outputAfterLint.results[0]).toMatchObject({parseErrors: []})''))
      else if length (invalidOptionWarnings r @ res_warnings r) \<noteq>
              (case warnings tc of Some ws \<Rightarrow> length ws | None \<Rightarrow> 1) then
        ([stylelintOptions cfg schema tc], Inl (AssertionError
           ''expect(actualWarnings).toHaveLength(...)''))
      else
        (case snd (forEach_warning (invalidOptionWarnings r @ res_warnings r) 0
                (case warnings tc of Some ws \<Rightarrow> ws | None \<Rightarrow> [own_warning tc])) of
           Inl e \<Rightarrow> ([stylelintOptions cfg schema tc], Inl e)
         | Inr u \<Rightarrow> (stylelintOptions cfg schema tc # fst (fix_comparisons cfg schema tc lint),
                     snd (fix_comparisons cfg schema tc lint))))"
proof (cases rule: forEach_warning_cases
    [of "invalidOptionWarnings r @ res_warnings r" 0
        "case warnings tc of Some ws \<Rightarrow> ws | None \<Rightarrow> [own_warning tc]"])
  case passes
  with assms show ?thesis
    by (simp add: reject_comparisons_def run_simps first_result_Cons Let_def)
next
  case (fails e)
  with assms show ?thesis
    by (simp add: reject_comparisons_def run_simps first_result_Cons Let_def)
qed

section \<open>The reject comparisons: warnings\<close>

lemmas example_defs = example_schema_def example_accept_def example_reject_def
  example_warning_def example_result_def example_engine_def example_config_def

lemma example_reject_passes:
  "reject_comparisons example_config example_schema example_reject example_engine =
     ([stylelintOptions example_config example_schema example_reject], Inr ())"
  by (simp add: reject_comparisons_def fix_comparisons_def example_defs run_simps
        first_result_def index_def toMatchObject_simps expectedWarning_def
        List.map_filter_simps truthy_def stylelintOptions_def)

lemma forEach_warning_at:
  assumes "i < length ws" and "forEach_warning actual 0 (take i ws) = ([], Inr ())"
  shows "forEach_warning actual 0 ws =
     (if message (ws ! i) = None then
        ([], Inl (AssertionError
           ''Expected \"reject\" test case to have a \"message\" property''))
      else if \<not> toMatchObject (index actual i) (expectedWarning (ws ! i)) then
        ([], Inl (AssertionError
           ''expect(actualWarnings[index]).toMatchObject(expectedWarning)''))
      else forEach_warning actual (Suc i) (drop (Suc i) ws))"
proof -
  from assms(1) have ws: "ws = take i ws @ ws ! i # drop (Suc i) ws"
    by (simp add: id_take_nth_drop)
  from assms have "forEach_warning actual 0 (take i ws @ ws ! i # drop (Suc i) ws) =
      forEach_warning actual (0 + length (take i ws)) (ws ! i # drop (Suc i) ws)"
    by (intro forEach_warning_append) simp
  with assms(1) have "forEach_warning actual 0 (take i ws @ ws ! i # drop (Suc i) ws) =
     (if message (ws ! i) = None then
        ([], Inl (AssertionError
           ''Expected \"reject\" test case to have a \"message\" property''))
      else if \<not> toMatchObject (index actual i) (expectedWarning (ws ! i)) then
        ([], Inl (AssertionError
           ''expect(actualWarnings[index]).toMatchObject(expectedWarning)''))
      else forEach_warning actual (Suc i) (drop (Suc i) ws))"
    by (simp add: run_simps)
  with ws show ?thesis by simp
qed

text \<open>
  Claim C5. The expected warnings of a reject case are the entries of its \<open>warnings\<close>
  list, or the case itself as one warning. \<open>forEach_warning\<close> passes exactly when every
  expected warning has a defined \<open>message\<close> and the actual warning at the same index has
  \<open>text\<close> equal to the message and, for each of \<open>line\<close>, \<open>column\<close>, \<open>endLine\<close>,
  \<open>endColumn\<close> that the expected warning defines, the same value; a field the expected
  warning leaves undefined is not compared. At the first expected warning that fails,
  the loop fails with the assertion message of the source when the warning has no
  message, and on the subset match otherwise.

  The reject test runs this loop on the actual warnings of the single result
  (\<open>invalidOptionWarnings\<close> followed by \<open>warnings\<close>) against those expected warnings,
  once the assertions on \<open>parseErrors\<close> and on the number of warnings have passed: a
  failure of the loop is the failure of the test, with the one engine invocation made so
  far, and only when the loop passes does the test go on to the autofix part. So a
  reject test whose first failing expected warning has no message fails with the
  source's assertion message, one whose first failing expected warning does not match
  fails on the subset match, and a reject test that passes has run the loop to its
  end.
\<close>

theorem forEach_warning_subset_match:
  "(forEach_warning actualWarnings 0 ws = ([], Inr ())) =
     (\<forall>i < length ws. \<exists>m a.
        message (ws ! i) = Some m \<and> index actualWarnings i = Some a \<and>
        map_of a ''text'' = Some (JStr m) \<and>
        (\<forall>n. line (ws ! i) = Some n \<longrightarrow> map_of a ''line'' = Some (JNum n)) \<and>
        (\<forall>n. column (ws ! i) = Some n \<longrightarrow> map_of a ''column'' = Some (JNum n)) \<and>
        (\<forall>n. endLine (ws ! i) = Some n \<longrightarrow> map_of a ''endLine'' = Some (JNum n)) \<and>
        (\<forall>n. endColumn (ws ! i) = Some n \<longrightarrow> map_of a ''endColumn'' = Some (JNum n))) \<and>
   (i < length ws \<and> forEach_warning actualWarnings 0 (take i ws) = ([], Inr ()) \<and>
      message (ws ! i) = None \<longrightarrow>
    forEach_warning actualWarnings 0 ws =
      ([], Inl (AssertionError
         ''Expected \"reject\" test case to have a \"message\" property''))) \<and>
   (lint (stylelintOptions cfg schema testCase) = Inr output \<and> results output = r # rs \<and>
      snd (reject_comparisons cfg schema testCase lint) = Inr () \<longrightarrow>
    forEach_warning (invalidOptionWarnings r @ res_warnings r) 0
      (case warnings testCase of Some ws \<Rightarrow> ws | None \<Rightarrow> [own_warning testCase]) =
      ([], Inr ())) \<and>
   (i < length ws \<and> forEach_warning actualWarnings 0 (take i ws) = ([], Inr ()) \<and>
      message (ws ! i) \<noteq> None \<and>
      \<not> toMatchObject (index actualWarnings i) (expectedWarning (ws ! i)) \<longrightarrow>
    forEach_warning actualWarnings 0 ws =
      ([], Inl (AssertionError
         ''expect(actualWarnings[index]).toMatchObject(expectedWarning)''))) \<and>
   (lint (stylelintOptions cfg schema testCase) = Inr output \<and> results output = r # rs \<and>
      parseErrors r = [] \<and>
      actual = invalidOptionWarnings r @ res_warnings r \<and>
      expected =
        (case warnings testCase of Some ws \<Rightarrow> ws | None \<Rightarrow> [own_warning testCase]) \<and>
      length actual = length expected \<longrightarrow>
    reject_comparisons cfg schema testCase lint =
      (case snd (forEach_warning actual 0 expected) of
         Inl e \<Rightarrow> ([stylelintOptions cfg schema testCase], Inl e)
       | Inr u \<Rightarrow>
           (stylelintOptions cfg schema testCase # fst (fix_comparisons cfg schema testCase lint),
            snd (fix_comparisons cfg schema testCase lint))) \<and>
    (j < length expected \<and> forEach_warning actual 0 (take j expected) = ([], Inr ()) \<and>
       message (expected ! j) = None \<longrightarrow>
     reject_comparisons cfg schema testCase lint =
       ([stylelintOptions cfg schema testCase], Inl (AssertionError
          ''Expected \"reject\" test case to have a \"message\" property''))) \<and>
    (j < length expected \<and> forEach_warning actual 0 (take j expected) = ([], Inr ()) \<and>
       message (expected ! j) \<noteq> None \<and>
       \<not> toMatchObject (index actual j) (expectedWarning (expected ! j)) \<longrightarrow>
     reject_comparisons cfg schema testCase lint =
       ([stylelintOptions cfg schema testCase], Inl (AssertionError
          ''expect(actualWarnings[index]).toMatchObject(expectedWarning)''))))"
proof (intro conjI impI)
  have "(message w \<noteq> None \<and> toMatchObject (index actualWarnings i) (expectedWarning w)) =
     (\<exists>m a. message w = Some m \<and> index actualWarnings i = Some a \<and>
        map_of a ''text'' = Some (JStr m) \<and>
        (\<forall>n. line w = Some n \<longrightarrow> map_of a ''line'' = Some (JNum n)) \<and>
        (\<forall>n. column w = Some n \<longrightarrow> map_of a ''column'' = Some (JNum n)) \<and>
        (\<forall>n. endLine w = Some n \<longrightarrow> map_of a ''endLine'' = Some (JNum n)) \<and>
        (\<forall>n. endColumn w = Some n \<longrightarrow> map_of a ''endColumn'' = Some (JNum n)))" for w i
    by (cases "index actualWarnings i")
       (auto simp: toMatchObject_undefined_expectedWarning toMatchObject_expectedWarning)
  then show "(forEach_warning actualWarnings 0 ws = ([], Inr ())) =
     (\<forall>i < length ws. \<exists>m a.
        message (ws ! i) = Some m \<and> index actualWarnings i = Some a \<and>
        map_of a ''text'' = Some (JStr m) \<and>
        (\<forall>n. line (ws ! i) = Some n \<longrightarrow> map_of a ''line'' = Some (JNum n)) \<and>
        (\<forall>n. column (ws ! i) = Some n \<longrightarrow> map_of a ''column'' = Some (JNum n)) \<and>
        (\<forall>n. endLine (ws ! i) = Some n \<longrightarrow> map_of a ''endLine'' = Some (JNum n)) \<and>
        (\<forall>n. endColumn (ws ! i) = Some n \<longrightarrow> map_of a ''endColumn'' = Some (JNum n)))"
    by (simp add: forEach_warning_passes)
next
  assume "i < length ws \<and> forEach_warning actualWarnings 0 (take i ws) = ([], Inr ()) \<and>
      message (ws ! i) = None"
  then show "forEach_warning actualWarnings 0 ws =
      ([], Inl (AssertionError
         ''Expected \"reject\" test case to have a \"message\" property''))"
    using forEach_warning_at [of i ws actualWarnings] by simp
next
  assume a: "lint (stylelintOptions cfg schema testCase) = Inr output \<and> results output = r # rs \<and>
      snd (reject_comparisons cfg schema testCase lint) = Inr ()"
  show "forEach_warning (invalidOptionWarnings r @ res_warnings r) 0
      (case warnings testCase of Some ws \<Rightarrow> ws | None \<Rightarrow> [own_warning testCase]) =
      ([], Inr ())"
  proof (cases rule: forEach_warning_cases
      [of "invalidOptionWarnings r @ res_warnings r" 0
          "case warnings testCase of Some ws \<Rightarrow> ws | None \<Rightarrow> [own_warning testCase]"])
    case passes
    then show ?thesis .
  next
    case (fails e)
    from a have l: "lint (stylelintOptions cfg schema testCase) = Inr output"
      and re: "results output = r # rs" by simp_all
    from a fails reject_lint_phase [of lint cfg schema testCase "output" r rs, OF l re]
    show ?thesis
      by (simp split: if_splits)
  qed
next
  assume "i < length ws \<and> forEach_warning actualWarnings 0 (take i ws) = ([], Inr ()) \<and>
      message (ws ! i) \<noteq> None \<and>
      \<not> toMatchObject (index actualWarnings i) (expectedWarning (ws ! i))"
  then show "forEach_warning actualWarnings 0 ws =
      ([], Inl (AssertionError
         ''expect(actualWarnings[index]).toMatchObject(expectedWarning)''))"
    using forEach_warning_at [of i ws actualWarnings] by simp
next
  assume a: "lint (stylelintOptions cfg schema testCase) = Inr output \<and> results output = r # rs \<and>
      parseErrors r = [] \<and>
      actual = invalidOptionWarnings r @ res_warnings r \<and>
      expected =
        (case warnings testCase of Some ws \<Rightarrow> ws | None \<Rightarrow> [own_warning testCase]) \<and>
      length actual = length expected"
  then have l: "lint (stylelintOptions cfg schema testCase) = Inr output"
    and re: "results output = r # rs" by simp_all
  from a have len: "length (invalidOptionWarnings r @ res_warnings r) =
      (case warnings testCase of Some ws \<Rightarrow> length ws | None \<Rightarrow> 1)"
    by (auto split: option.splits)
  from a len reject_lint_phase [of lint cfg schema testCase "output" r rs, OF l re]
  show run: "reject_comparisons cfg schema testCase lint =
      (case snd (forEach_warning actual 0 expected) of
         Inl e \<Rightarrow> ([stylelintOptions cfg schema testCase], Inl e)
       | Inr u \<Rightarrow>
           (stylelintOptions cfg schema testCase # fst (fix_comparisons cfg schema testCase lint),
            snd (fix_comparisons cfg schema testCase lint)))"
    by simp
  {
    assume "j < length expected \<and> forEach_warning actual 0 (take j expected) = ([], Inr ()) \<and>
       message (expected ! j) = None"
    then show "reject_comparisons cfg schema testCase lint =
       ([stylelintOptions cfg schema testCase], Inl (AssertionError
          ''Expected \"reject\" test case to have a \"message\" property''))"
      using forEach_warning_at [of j expected actual] run by simp
  }
  {
    assume "j < length expected \<and> forEach_warning actual 0 (take j expected) = ([], Inr ()) \<and>
       message (expected ! j) \<noteq> None \<and>
       \<not> toMatchObject (index actual j) (expectedWarning (expected ! j))"
    then show "reject_comparisons cfg schema testCase lint =
       ([stylelintOptions cfg schema testCase], Inl (AssertionError
          ''expect(actualWarnings[index]).toMatchObject(expectedWarning)''))"
      using forEach_warning_at [of j expected actual] run by simp
  }
qed

text \<open>
  The theorem at the example. On the loop: the engine's warning against the expected
  warning \<open>unexpected b\<close> at line 1, column 1 (a match; \<open>endLine\<close>, \<open>rule\<close> and the other
  properties of the actual warning are not compared), and against the same expected
  warning without its message (the descriptive failure). On the reject test, run
  against the example engine: the example case passes; the case without its message
  fails with the source's assertion message after one engine invocation; the case that
  expects line 2 fails on the subset match.
\<close>

theorem forEach_warning_subset_match_witness:
  "forEach_warning [example_warning] 0 [own_warning example_reject] = ([], Inr ()) \<and>
   forEach_warning [example_warning] 0 [(own_warning example_reject) \<lparr> message := None \<rparr>] =
     ([], Inl (AssertionError
        ''Expected \"reject\" test case to have a \"message\" property'')) \<and>
   forEach_warning
     (invalidOptionWarnings (example_result ''b{}'') @ res_warnings (example_result ''b{}'')) 0
     [own_warning example_reject] = ([], Inr ()) \<and>
   reject_comparisons example_config example_schema
     (example_reject \<lparr> own_warning := (own_warning example_reject) \<lparr> message := None \<rparr> \<rparr>)
     example_engine =
     ([\<lparr> opt_code = ''b{}'', opt_config = example_config, opt_customSyntax = None,
         opt_codeFilename = None, opt_fix = None \<rparr>],
      Inl (AssertionError
        ''Expected \"reject\" test case to have a \"message\" property'')) \<and>
   reject_comparisons example_config example_schema
     (example_reject \<lparr> own_warning := (own_warning example_reject) \<lparr> line := Some 2 \<rparr> \<rparr>)
     example_engine =
     ([\<lparr> opt_code = ''b{}'', opt_config = example_config, opt_customSyntax = None,
         opt_codeFilename = None, opt_fix = None \<rparr>],
      Inl (AssertionError
        ''expect(actualWarnings[index]).toMatchObject(expectedWarning)''))"
proof (intro conjI)
  show "forEach_warning [example_warning] 0 [own_warning example_reject] = ([], Inr ())"
    using forEach_warning_subset_match
      [of "[example_warning]" "[own_warning example_reject]" 0 example_engine example_config
          example_schema example_reject "\<lparr> results = [example_result ''b{}''] \<rparr>"
          "example_result ''b{}''" "[]"]
    by (simp add: example_reject_def example_warning_def index_def)
  show "forEach_warning [example_warning] 0 [(own_warning example_reject) \<lparr> message := None \<rparr>] =
     ([], Inl (AssertionError
        ''Expected \"reject\" test case to have a \"message\" property''))"
    using forEach_warning_subset_match
      [of "[example_warning]" "[(own_warning example_reject) \<lparr> message := None \<rparr>]" 0
          example_engine example_config
          example_schema example_reject "\<lparr> results = [example_result ''b{}''] \<rparr>"
          "example_result ''b{}''" "[]"]
    by (simp add: run_simps)
  show "forEach_warning
     (invalidOptionWarnings (example_result ''b{}'') @ res_warnings (example_result ''b{}'')) 0
     [own_warning example_reject] = ([], Inr ())"
    using forEach_warning_subset_match
      [of "[example_warning]" "[own_warning example_reject]" 0 example_engine example_config
          example_schema example_reject "\<lparr> results = [example_result ''b{}''] \<rparr>"
          "example_result ''b{}''" "[]"]
      example_reject_passes
    by (simp add: example_engine_def stylelintOptions_def example_reject_def)
  let ?nomsg = "example_reject \<lparr> own_warning := (own_warning example_reject) \<lparr> message := None \<rparr> \<rparr>"
  let ?line2 = "example_reject \<lparr> own_warning := (own_warning example_reject) \<lparr> line := Some 2 \<rparr> \<rparr>"
  have o1: "stylelintOptions example_config example_schema tc =
      \<lparr> opt_code = ''b{}'', opt_config = example_config, opt_customSyntax = None,
        opt_codeFilename = None, opt_fix = None \<rparr>"
    if "code tc = ''b{}''" for tc :: reject_test_case
    using that by (simp add: stylelintOptions_def example_schema_def)
  have l: "example_engine (stylelintOptions example_config example_schema tc) =
      Inr \<lparr> results = [example_result ''b{}''] \<rparr>"
    if "code tc = ''b{}''" for tc :: reject_test_case
    using that by (simp add: o1 example_engine_def)
  have pre: "example_engine (stylelintOptions example_config example_schema tc) =
        Inr \<lparr> results = [example_result ''b{}''] \<rparr> \<and>
      results \<lparr> results = [example_result ''b{}''] \<rparr> = example_result ''b{}'' # [] \<and>
      parseErrors (example_result ''b{}'') = [] \<and>
      [example_warning] =
        invalidOptionWarnings (example_result ''b{}'') @ res_warnings (example_result ''b{}'') \<and>
      [own_warning tc] =
        (case warnings tc of Some ws \<Rightarrow> ws | None \<Rightarrow> [own_warning tc]) \<and>
      length [example_warning] = length [own_warning tc]"
    if "code tc = ''b{}''" and "warnings tc = None" for tc :: reject_test_case
    using that l [OF that(1)] by (simp add: example_result_def)
  have c1: "code ?nomsg = ''b{}''" and w1: "warnings ?nomsg = None"
    and c2: "code ?line2 = ''b{}''" and w2: "warnings ?line2 = None"
    by (simp_all add: example_reject_def)
  note t1 = forEach_warning_subset_match
      [of "[example_warning]" "[own_warning ?nomsg]" 0 example_engine example_config
          example_schema ?nomsg "\<lparr> results = [example_result ''b{}''] \<rparr>"
          "example_result ''b{}''" "[]" "[example_warning]" "[own_warning ?nomsg]" 0,
       THEN conjunct2, THEN conjunct2, THEN conjunct2, THEN conjunct2, THEN mp,
       OF pre [OF c1 w1]]
  from t1 [THEN conjunct2, THEN conjunct1]
  show "reject_comparisons example_config example_schema ?nomsg example_engine =
     ([\<lparr> opt_code = ''b{}'', opt_config = example_config, opt_customSyntax = None,
         opt_codeFilename = None, opt_fix = None \<rparr>],
      Inl (AssertionError
        ''Expected \"reject\" test case to have a \"message\" property''))"
    by (simp add: stylelintOptions_def example_schema_def run_simps example_reject_def)
  note t2 = forEach_warning_subset_match
      [of "[example_warning]" "[own_warning ?line2]" 0 example_engine example_config
          example_schema ?line2 "\<lparr> results = [example_result ''b{}''] \<rparr>"
          "example_result ''b{}''" "[]" "[example_warning]" "[own_warning ?line2]" 0,
       THEN conjunct2, THEN conjunct2, THEN conjunct2, THEN conjunct2, THEN mp,
       OF pre [OF c2 w2]]
  from t2 [THEN conjunct2, THEN conjunct2]
  show "reject_comparisons example_config example_schema ?line2 example_engine =
     ([\<lparr> opt_code = ''b{}'', opt_config = example_config, opt_customSyntax = None,
         opt_codeFilename = None, opt_fix = None \<rparr>],
      Inl (AssertionError
        ''expect(actualWarnings[index]).toMatchObject(expectedWarning)''))"
    by (simp add: stylelintOptions_def example_schema_def run_simps example_reject_def
          example_warning_def index_def
          toMatchObject_simps expectedWarning_def List.map_filter_simps)
qed

text \<open>
  Claim C4. In a reject test, on the single result of the lint: a non-empty
  \<open>parseErrors\<close> fails the assertion on \<open>parseErrors\<close>; otherwise a number of actual
  warnings, counted over \<open>invalidOptionWarnings\<close> followed by \<open>warnings\<close>, different from
  the length of the case's \<open>warnings\<close> list when that list is present (the empty list
  too: then 0) and from 1 otherwise fails the assertion on the length; and a test that
  passes has matched expected warning \<open>i\<close> against element \<open>i\<close> of the sequence
  \<open>invalidOptionWarnings\<close> followed by \<open>warnings\<close>.
\<close>

theorem reject_lint_assertions:
  assumes "lint (stylelintOptions cfg schema testCase) = Inr output"
    and "results output = r # rs"
  shows
  "(parseErrors r \<noteq> [] \<longrightarrow>
      reject_comparisons cfg schema testCase lint =
        ([stylelintOptions cfg schema testCase], Inl (AssertionError
           ''expect(outputAfterLint.results[0]).toMatchObject({parseErrors: []})''))) \<and>
   (parseErrors r = [] \<and>
    length (invalidOptionWarnings r @ res_warnings r) \<noteq>
      (case warnings testCase of Some ws \<Rightarrow> length ws | None \<Rightarrow> 1) \<longrightarrow>
      reject_comparisons cfg schema testCase lint =
        ([stylelintOptions cfg schema testCase], Inl (AssertionError
           ''expect(actualWarnings).toHaveLength(...)''))) \<and>
   (snd (reject_comparisons cfg schema testCase lint) = Inr () \<longrightarrow>
      parseErrors r = [] \<and>
      length (invalidOptionWarnings r @ res_warnings r) =
        (case warnings testCase of Some ws \<Rightarrow> length ws | None \<Rightarrow> 1) \<and>
      (\<forall>i < (case warnings testCase of Some ws \<Rightarrow> length ws | None \<Rightarrow> 1).
         toMatchObject (Some ((invalidOptionWarnings r @ res_warnings r) ! i))
           (expectedWarning
              ((case warnings testCase of Some ws \<Rightarrow> ws | None \<Rightarrow> [own_warning testCase]) ! i))))"
proof (intro conjI impI)
  assume "parseErrors r \<noteq> []"
  with reject_lint_phase [of lint cfg schema testCase "output" r rs, OF assms]
  show "reject_comparisons cfg schema testCase lint =
        ([stylelintOptions cfg schema testCase], Inl (AssertionError
           ''expect(outputAfterLint.results[0]).toMatchObject({parseErrors: []})''))"
    by simp
next
  assume "parseErrors r = [] \<and>
    length (invalidOptionWarnings r @ res_warnings r) \<noteq>
      (case warnings testCase of Some ws \<Rightarrow> length ws | None \<Rightarrow> 1)"
  with reject_lint_phase [of lint cfg schema testCase "output" r rs, OF assms]
  show "reject_comparisons cfg schema testCase lint =
        ([stylelintOptions cfg schema testCase], Inl (AssertionError
           ''expect(actualWarnings).toHaveLength(...)''))"
    by simp
next
  assume p: "snd (reject_comparisons cfg schema testCase lint) = Inr ()"
  with reject_lint_phase [of lint cfg schema testCase "output" r rs, OF assms]
  show "parseErrors r = []" by (auto split: if_splits)
  from p reject_lint_phase [of lint cfg schema testCase "output" r rs, OF assms]
  show len: "length (invalidOptionWarnings r @ res_warnings r) =
        (case warnings testCase of Some ws \<Rightarrow> length ws | None \<Rightarrow> 1)"
    by (auto split: if_splits)
  have "forEach_warning (invalidOptionWarnings r @ res_warnings r) 0
      (case warnings testCase of Some ws \<Rightarrow> ws | None \<Rightarrow> [own_warning testCase]) = ([], Inr ())"
  proof (cases rule: forEach_warning_cases
      [of "invalidOptionWarnings r @ res_warnings r" 0
          "case warnings testCase of Some ws \<Rightarrow> ws | None \<Rightarrow> [own_warning testCase]"])
    case passes
    then show ?thesis .
  next
    case (fails e)
    with p reject_lint_phase [of lint cfg schema testCase "output" r rs, OF assms]
    show ?thesis by (simp split: if_splits)
  qed
  then have "\<forall>i < length (case warnings testCase of Some ws \<Rightarrow> ws | None \<Rightarrow> [own_warning testCase]).
      toMatchObject (index (invalidOptionWarnings r @ res_warnings r) i)
        (expectedWarning
           ((case warnings testCase of Some ws \<Rightarrow> ws | None \<Rightarrow> [own_warning testCase]) ! i))"
    by (simp add: forEach_warning_passes)
  with len show "\<forall>i < (case warnings testCase of Some ws \<Rightarrow> length ws | None \<Rightarrow> 1).
         toMatchObject (Some ((invalidOptionWarnings r @ res_warnings r) ! i))
           (expectedWarning
              ((case warnings testCase of Some ws \<Rightarrow> ws | None \<Rightarrow> [own_warning testCase]) ! i))"
    by (auto simp: index_def split: option.splits)
qed

text \<open>
  The theorem at the example reject case, which passes with one actual warning, and at
  the same case with \<open>warnings: []\<close>, where the expected length is 0 and the assertion on
  the length fails.
\<close>

theorem reject_lint_assertions_witness:
  "snd (reject_comparisons example_config example_schema example_reject example_engine) = Inr () \<and>
   parseErrors (example_result ''b{}'') = [] \<and>
   length (invalidOptionWarnings (example_result ''b{}'') @ res_warnings (example_result ''b{}''))
     = 1 \<and>
   reject_comparisons example_config example_schema (example_reject \<lparr> warnings := Some [] \<rparr>)
     example_engine =
     ([stylelintOptions example_config example_schema (example_reject \<lparr> warnings := Some [] \<rparr>)],
      Inl (AssertionError ''expect(actualWarnings).toHaveLength(...)''))"
  using
    reject_lint_assertions [of example_engine example_config example_schema example_reject
      "\<lparr> results = [example_result ''b{}''] \<rparr>" "example_result ''b{}''" "[]"]
    reject_lint_assertions [of example_engine example_config example_schema
      "example_reject \<lparr> warnings := Some [] \<rparr>"
      "\<lparr> results = [example_result ''b{}''] \<rparr>" "example_result ''b{}''" "[]"]
    example_reject_passes
  by (simp add: example_engine_def stylelintOptions_def example_reject_def example_result_def)

section \<open>The accept comparisons\<close>

lemma getOutputCss_calls: "fst (getOutputCss output) = []"
  by (cases "results output")
     (simp_all add: getOutputCss_def first_result_Cons first_result_Nil run_simps
        split: option.splits)

text \<open>
  Claim C6. In an accept test, on the single result of the lint, a non-empty \<open>warnings\<close>,
  then a non-empty \<open>parseErrors\<close>, then a non-empty \<open>invalidOptionWarnings\<close> fails the
  assertion that the sequence equals \<open>[]\<close>. With the three empty, a schema without
  \<open>fix\<close> passes after this one engine invocation; a schema with \<open>fix\<close> invokes the
  engine a second time on the same options with \<open>fix: true\<close> added, and the test passes
  exactly when the source text extracted from that output equals the case's \<open>code\<close>.
\<close>

theorem accept_comparisons_assertions:
  assumes "lint (stylelintOptions cfg schema testCase) = Inr output"
    and "results output = r # rs"
  shows
  "(res_warnings r \<noteq> [] \<longrightarrow>
      accept_comparisons cfg schema testCase lint =
        ([stylelintOptions cfg schema testCase],
         Inl (AssertionError ''expect(output.results[0].warnings).toEqual([])''))) \<and>
   (res_warnings r = [] \<and> parseErrors r \<noteq> [] \<longrightarrow>
      accept_comparisons cfg schema testCase lint =
        ([stylelintOptions cfg schema testCase],
         Inl (AssertionError ''expect(output.results[0].parseErrors).toEqual([])''))) \<and>
   (res_warnings r = [] \<and> parseErrors r = [] \<and> invalidOptionWarnings r \<noteq> [] \<longrightarrow>
      accept_comparisons cfg schema testCase lint =
        ([stylelintOptions cfg schema testCase],
         Inl (AssertionError
            ''expect(output.results[0].invalidOptionWarnings).toEqual([])''))) \<and>
   (res_warnings r = [] \<and> parseErrors r = [] \<and> invalidOptionWarnings r = [] \<and>
    \<not> truthy (fix_s schema) \<longrightarrow>
      accept_comparisons cfg schema testCase lint =
        ([stylelintOptions cfg schema testCase], Inr ())) \<and>
   (res_warnings r = [] \<and> parseErrors r = [] \<and> invalidOptionWarnings r = [] \<and>
    truthy (fix_s schema) \<longrightarrow>
      accept_comparisons cfg schema testCase lint =
        ([stylelintOptions cfg schema testCase,
          (stylelintOptions cfg schema testCase) \<lparr> opt_fix := Some True \<rparr>],
         case lint ((stylelintOptions cfg schema testCase) \<lparr> opt_fix := Some True \<rparr>) of
           Inl e \<Rightarrow> Inl e
         | Inr outputAfterFix \<Rightarrow>
             (case snd (getOutputCss outputAfterFix) of
                Inl e \<Rightarrow> Inl e
              | Inr fixedCode \<Rightarrow>
                  if fixedCode = code testCase then Inr ()
                  else Inl (AssertionError ''expect(fixedCode).toBe(testCase.code)''))))"
proof (intro conjI impI)
  assume "res_warnings r \<noteq> []"
  with assms show "accept_comparisons cfg schema testCase lint =
        ([stylelintOptions cfg schema testCase],
         Inl (AssertionError ''expect(output.results[0].warnings).toEqual([])''))"
    by (simp add: accept_comparisons_def run_simps first_result_Cons)
next
  assume "res_warnings r = [] \<and> parseErrors r \<noteq> []"
  with assms show "accept_comparisons cfg schema testCase lint =
        ([stylelintOptions cfg schema testCase],
         Inl (AssertionError ''expect(output.results[0].parseErrors).toEqual([])''))"
    by (simp add: accept_comparisons_def run_simps first_result_Cons)
next
  assume "res_warnings r = [] \<and> parseErrors r = [] \<and> invalidOptionWarnings r \<noteq> []"
  with assms show "accept_comparisons cfg schema testCase lint =
        ([stylelintOptions cfg schema testCase],
         Inl (AssertionError
            ''expect(output.results[0].invalidOptionWarnings).toEqual([])''))"
    by (simp add: accept_comparisons_def run_simps first_result_Cons)
next
  assume "res_warnings r = [] \<and> parseErrors r = [] \<and> invalidOptionWarnings r = [] \<and>
    \<not> truthy (fix_s schema)"
  with assms show "accept_comparisons cfg schema testCase lint =
        ([stylelintOptions cfg schema testCase], Inr ())"
    by (simp add: accept_comparisons_def run_simps first_result_Cons)
next
  assume a: "res_warnings r = [] \<and> parseErrors r = [] \<and> invalidOptionWarnings r = [] \<and>
    truthy (fix_s schema)"
  show "accept_comparisons cfg schema testCase lint =
        ([stylelintOptions cfg schema testCase,
          (stylelintOptions cfg schema testCase) \<lparr> opt_fix := Some True \<rparr>],
         case lint ((stylelintOptions cfg schema testCase) \<lparr> opt_fix := Some True \<rparr>) of
           Inl e \<Rightarrow> Inl e
         | Inr outputAfterFix \<Rightarrow>
             (case snd (getOutputCss outputAfterFix) of
                Inl e \<Rightarrow> Inl e
              | Inr fixedCode \<Rightarrow>
                  if fixedCode = code testCase then Inr ()
                  else Inl (AssertionError ''expect(fixedCode).toBe(testCase.code)'')))"
  proof (cases "lint ((stylelintOptions cfg schema testCase) \<lparr> opt_fix := Some True \<rparr>)")
    case (Inl e)
    with assms a show ?thesis
      by (simp add: accept_comparisons_def run_simps first_result_Cons)
  next
    case (Inr outputAfterFix)
    obtain c res where g: "getOutputCss outputAfterFix = (c, res)"
      by (cases "getOutputCss outputAfterFix")
    with getOutputCss_calls [of outputAfterFix] have c: "c = []" by simp
    from assms a Inr g c show ?thesis
      by (cases res) (simp_all add: accept_comparisons_def run_simps first_result_Cons)
  qed
qed

text \<open>
  The theorem at the example accept case \<open>a{}\<close>: without \<open>fix\<close> the test passes after
  one invocation; with \<open>fix\<close> it passes after the second, whose tree renders \<open>a{}\<close>. On
  the source \<open>b{}\<close>, for which the engine reports a warning, the accept test fails on the
  first assertion.
\<close>

theorem accept_comparisons_assertions_witness:
  "accept_comparisons example_config example_schema example_accept example_engine =
     ([stylelintOptions example_config example_schema example_accept], Inr ()) \<and>
   accept_comparisons example_config (example_schema \<lparr> fix_s := Some True \<rparr>) example_accept
     example_engine =
     ([stylelintOptions example_config (example_schema \<lparr> fix_s := Some True \<rparr>) example_accept,
       (stylelintOptions example_config (example_schema \<lparr> fix_s := Some True \<rparr>) example_accept)
         \<lparr> opt_fix := Some True \<rparr>],
      Inr ()) \<and>
   accept_comparisons example_config example_schema (example_accept \<lparr> code := ''b{}'' \<rparr>)
     example_engine =
     ([stylelintOptions example_config example_schema (example_accept \<lparr> code := ''b{}'' \<rparr>)],
      Inl (AssertionError ''expect(output.results[0].warnings).toEqual([])''))"
  using
    accept_comparisons_assertions [of example_engine example_config example_schema
      example_accept "\<lparr> results = [example_result ''a{}''] \<rparr>" "example_result ''a{}''" "[]"]
    accept_comparisons_assertions [of example_engine example_config
      "example_schema \<lparr> fix_s := Some True \<rparr>"
      example_accept "\<lparr> results = [example_result ''a{}''] \<rparr>" "example_result ''a{}''" "[]"]
    accept_comparisons_assertions [of example_engine example_config example_schema
      "example_accept \<lparr> code := ''b{}'' \<rparr>" "\<lparr> results = [example_result ''b{}''] \<rparr>"
      "example_result ''b{}''" "[]"]
  by (simp add: example_engine_def stylelintOptions_def example_accept_def example_result_def
        example_schema_def truthy_def getOutputCss_def first_result_def index_def run_simps)

section \<open>The reject comparisons: autofix\<close>

text \<open>
  Claim C2, as the code has it. For a reject case that has neither \<open>fixed\<close> (the empty
  string counts as having it) nor a true \<open>unfixable\<close>, under a schema with \<open>fix\<close>: the
  test never passes and never invokes the engine with autofix; it invokes the engine
  exactly once, without \<open>fix\<close>, and when the assertions on that lint have passed it
  throws the \<open>Error\<close> that asks for \<open>fixed\<close>. The check comes after the lint of the case,
  not before it.
\<close>

theorem fix_contract_checked_after_lint:
  assumes "truthy (fix_s schema)"
    and "fixed testCase = None"
    and "\<not> truthy (unfixable testCase)"
  shows
  "fst (reject_comparisons cfg schema testCase lint) = [stylelintOptions cfg schema testCase] \<and>
   opt_fix (stylelintOptions cfg schema testCase) = None \<and>
   (\<exists>e. snd (reject_comparisons cfg schema testCase lint) = Inl e) \<and>
   (lint (stylelintOptions cfg schema testCase) = Inr output \<and> results output = r # rs \<and>
    parseErrors r = [] \<and>
    length (invalidOptionWarnings r @ res_warnings r) =
      (case warnings testCase of Some ws \<Rightarrow> length ws | None \<Rightarrow> 1) \<and>
    forEach_warning (invalidOptionWarnings r @ res_warnings r) 0
      (case warnings testCase of Some ws \<Rightarrow> ws | None \<Rightarrow> [own_warning testCase]) =
      ([], Inr ()) \<longrightarrow>
    snd (reject_comparisons cfg schema testCase lint) = Inl (Error
      ''If using { fix: true } in test schema, all reject cases must have { fixed: .. }''))"
proof -
  from assms have fixc: "fix_comparisons cfg schema testCase lint = ([], Inl (Error
      ''If using { fix: true } in test schema, all reject cases must have { fixed: .. }''))"
    by (simp add: fix_comparisons_def truthy_string_def run_simps)
  have calls: "fst (reject_comparisons cfg schema testCase lint) =
      [stylelintOptions cfg schema testCase] \<and>
      (\<exists>e. snd (reject_comparisons cfg schema testCase lint) = Inl e)"
  proof (cases "lint (stylelintOptions cfg schema testCase)")
    case (Inl e)
    then show ?thesis by (simp add: reject_lint_rejected)
  next
    case (Inr out)
    show ?thesis
    proof (cases "results out")
      case Nil
      with Inr show ?thesis by (simp add: reject_lint_no_entry)
    next
      case (Cons r' rs')
      from reject_lint_phase [of lint cfg schema testCase out r' rs', OF Inr Cons] fixc
      show ?thesis by (auto split: sum.splits)
    qed
  qed
  have "snd (reject_comparisons cfg schema testCase lint) = Inl (Error
      ''If using { fix: true } in test schema, all reject cases must have { fixed: .. }'')"
    if l: "lint (stylelintOptions cfg schema testCase) = Inr output"
      and re: "results output = r # rs"
      and ok: "parseErrors r = []"
        "length (invalidOptionWarnings r @ res_warnings r) =
           (case warnings testCase of Some ws \<Rightarrow> length ws | None \<Rightarrow> 1)"
        "forEach_warning (invalidOptionWarnings r @ res_warnings r) 0
           (case warnings testCase of Some ws \<Rightarrow> ws | None \<Rightarrow> [own_warning testCase]) =
         ([], Inr ())"
    using reject_lint_phase [of lint cfg schema testCase "output" r rs, OF l re] ok fixc
    by simp
  with calls show ?thesis by (simp add: stylelintOptions_def)
qed

text \<open>
  The theorem at the example reject case, which has no \<open>fixed\<close> and no \<open>unfixable\<close>, under
  the example schema with \<open>fix: true\<close>.
\<close>

theorem fix_contract_checked_after_lint_witness:
  "fst (reject_comparisons example_config (example_schema \<lparr> fix_s := Some True \<rparr>)
          example_reject example_engine) =
     [stylelintOptions example_config (example_schema \<lparr> fix_s := Some True \<rparr>) example_reject] \<and>
   snd (reject_comparisons example_config (example_schema \<lparr> fix_s := Some True \<rparr>)
          example_reject example_engine) =
     Inl (Error
       ''If using { fix: true } in test schema, all reject cases must have { fixed: .. }'')"
  using fix_contract_checked_after_lint
      [of "example_schema \<lparr> fix_s := Some True \<rparr>" example_reject example_config example_engine
          "\<lparr> results = [example_result ''b{}''] \<rparr>" "example_result ''b{}''" "[]"]
  by (simp add: example_defs truthy_def stylelintOptions_def run_simps index_def
        toMatchObject_simps expectedWarning_def List.map_filter_simps)

text \<open>
  Claim C2 as stated has the failure before any invocation of the engine. On the example
  the engine has been invoked once when the \<open>Error\<close> is thrown; and on a reject case whose
  lint reports no warning, the test fails on the number of warnings and the \<open>Error\<close> is
  never thrown.
\<close>

theorem fix_contract_counterexample:
  "reject_comparisons example_config (example_schema \<lparr> fix_s := Some True \<rparr>)
     example_reject example_engine =
     ([\<lparr> opt_code = ''b{}'', opt_config = example_config, opt_customSyntax = None,
         opt_codeFilename = None, opt_fix = None \<rparr>],
      Inl (Error
        ''If using { fix: true } in test schema, all reject cases must have { fixed: .. }'')) \<and>
   reject_comparisons example_config (example_schema \<lparr> fix_s := Some True \<rparr>)
     (example_reject \<lparr> code := ''a{}'' \<rparr>) example_engine =
     ([\<lparr> opt_code = ''a{}'', opt_config = example_config, opt_customSyntax = None,
         opt_codeFilename = None, opt_fix = None \<rparr>],
      Inl (AssertionError ''expect(actualWarnings).toHaveLength(...)''))"
  by (simp add: reject_comparisons_def fix_comparisons_def example_defs run_simps
        first_result_def index_def toMatchObject_simps expectedWarning_def
        List.map_filter_simps truthy_def truthy_string_def stylelintOptions_def)

text \<open>
  Claim C7 on a reject case with \<open>unfixable: true\<close> and \<open>fixed: ''\<close>, under \<open>fix: true\<close>:
  the autofix pass leaves the source \<open>b{}\<close>, which is not the supplied \<open>fixed\<close>, and the
  test passes. The comparison with \<open>fixed\<close> is guarded by the truthiness of \<open>fixed\<close>, so
  it is not made for the empty string, which the check before the autofix pass counts as
  a supplied \<open>fixed\<close>. With the non-empty \<open>fixed: 'c{}'\<close> the comparison is made and the
  same test fails on it.
\<close>

theorem unfixable_empty_fixed_not_compared:
  "fixed (example_reject \<lparr> fixed := Some '''', unfixable := Some True \<rparr>) = Some '''' \<and>
   snd (getOutputCss \<lparr> results = [example_result ''b{}''] \<rparr>) = Inr ''b{}'' \<and>
   reject_comparisons example_config (example_schema \<lparr> fix_s := Some True \<rparr>)
     (example_reject \<lparr> fixed := Some '''', unfixable := Some True \<rparr>) example_engine =
     ([\<lparr> opt_code = ''b{}'', opt_config = example_config, opt_customSyntax = None,
         opt_codeFilename = None, opt_fix = None \<rparr>,
       \<lparr> opt_code = ''b{}'', opt_config = example_config, opt_customSyntax = None,
         opt_codeFilename = None, opt_fix = Some True \<rparr>,
       \<lparr> opt_code = ''b{}'', opt_config = example_config, opt_customSyntax = None,
         opt_codeFilename = None, opt_fix = Some True \<rparr>],
      Inr ()) \<and>
   reject_comparisons example_config (example_schema \<lparr> fix_s := Some True \<rparr>)
     (example_reject \<lparr> fixed := Some ''c{}'', unfixable := Some True \<rparr>) example_engine =
     ([\<lparr> opt_code = ''b{}'', opt_config = example_config, opt_customSyntax = None,
         opt_codeFilename = None, opt_fix = None \<rparr>,
       \<lparr> opt_code = ''b{}'', opt_config = example_config, opt_customSyntax = None,
         opt_codeFilename = None, opt_fix = Some True \<rparr>],
      Inl (AssertionError ''expect(fixedCode).toBe(testCase.fixed)''))"
  by (simp add: reject_comparisons_def fix_comparisons_def getOutputCss_def example_defs
        run_simps first_result_def index_def toMatchObject_simps toMatchObject_result_def
        expectedWarning_def List.map_filter_simps truthy_def truthy_string_def
        stylelintOptions_def)

lemma toMatchObject_result_iff:
  "toMatchObject_result (index (results out) 0) ws =
     (\<exists>r3 rs3. results out = r3 # rs3 \<and> parseErrors r3 = [] \<and>
        length (res_warnings r3) = length ws \<and>
        (\<forall>i < length ws. \<forall>k v. (k, v) \<in> set (ws ! i) \<longrightarrow>
           (\<exists>x. map_of (res_warnings r3 ! i) k = Some x \<and> subsetEquality x v)))"
  by (cases "results out")
     (auto simp: toMatchObject_result_def index_def toMatchObject_iff list_all2_conv_all_nth)

lemma fix_comparisons_relint:
  assumes "truthy (fix_s schema)"
    and "lint ((stylelintOptions cfg schema testCase) \<lparr> opt_fix := Some True \<rparr>) =
           Inr outputAfterFix"
    and "results outputAfterFix = rf # rs2"
    and "postcssResult rf = Some p" and "root p = Some rt" and "opts p = Some os"
    and "fixedCode = toString rt (syntax_o os)"
    and "if truthy (unfixable testCase)
         then (truthy_string (fixed testCase) \<longrightarrow> fixed testCase = Some fixedCode) \<and>
              fixedCode = code testCase
         else fixed testCase = Some fixedCode \<and> fixedCode \<noteq> code testCase"
  shows "fix_comparisons cfg schema testCase lint =
     ([(stylelintOptions cfg schema testCase) \<lparr> opt_fix := Some True \<rparr>,
       (stylelintOptions cfg schema testCase)
         \<lparr> opt_code := fixedCode, opt_fix := unfixable testCase \<rparr>],
      case lint ((stylelintOptions cfg schema testCase)
                   \<lparr> opt_code := fixedCode, opt_fix := unfixable testCase \<rparr>) of
        Inl e \<Rightarrow> Inl e
      | Inr out3 \<Rightarrow>
          if toMatchObject_result (index (results out3) 0) (res_warnings rf) then Inr ()
          else Inl (AssertionError
            ''expect(outputAfterLintOnFixedCode.results[0]).toMatchObject({warnings, parseErrors: []})''))"
proof -
  from assms have css: "getOutputCss outputAfterFix = ([], Inr fixedCode)"
    by (simp add: getOutputCss_def first_result_Cons run_simps)
  from assms(8) have guard: "\<not> (\<not> truthy_string (fixed testCase) \<and>
      fixed testCase \<noteq> Some '''' \<and> \<not> truthy (unfixable testCase))"
    by (auto simp: truthy_string_def split: if_splits)
  show ?thesis
  proof (cases "truthy (unfixable testCase)")
    case True
    with assms css guard show ?thesis
      by (cases "lint ((stylelintOptions cfg schema testCase)
                   \<lparr> opt_code := fixedCode, opt_fix := unfixable testCase \<rparr>)")
         (auto simp: fix_comparisons_def run_simps first_result_Cons)
  next
    case False
    with assms css guard show ?thesis
      by (cases "lint ((stylelintOptions cfg schema testCase)
                   \<lparr> opt_code := fixedCode, opt_fix := unfixable testCase \<rparr>)")
         (auto simp: fix_comparisons_def run_simps first_result_Cons)
  qed
qed

text \<open>
  Claim C8, as the code has it. When the lint of a reject case and the assertions on the
  fixed text have passed under a schema with \<open>fix\<close>, the engine has been invoked three
  times: on the case, on the case with \<open>fix: true\<close>, and on the fixed text with \<open>fix\<close>
  set to the case's \<open>unfixable\<close>, so with autofix exactly when \<open>unfixable\<close> is true. The
  test then passes exactly when the last result has no parse errors and as many warnings
  as the autofix pass left, each having every property of the warning of the autofix
  pass at the same index with a value that subset-matches its value: equal when that
  value is a string, a number, a boolean, \<open>null\<close> or \<open>undefined\<close>, and matched in the
  same way, recursively, when it is an object or an array. A warning with more
  properties, at any depth, also satisfies this. When the last lint returns and the
  match fails, the failure is the assertion on that result.
\<close>

theorem relint_after_fix:
  assumes "lint (stylelintOptions cfg schema testCase) = Inr outputAfterLint"
    and "results outputAfterLint = r # rs"
    and "parseErrors r = []"
    and "length (invalidOptionWarnings r @ res_warnings r) =
           (case warnings testCase of Some ws \<Rightarrow> length ws | None \<Rightarrow> 1)"
    and "forEach_warning (invalidOptionWarnings r @ res_warnings r) 0
           (case warnings testCase of Some ws \<Rightarrow> ws | None \<Rightarrow> [own_warning testCase]) =
         ([], Inr ())"
    and "truthy (fix_s schema)"
    and "lint ((stylelintOptions cfg schema testCase) \<lparr> opt_fix := Some True \<rparr>) =
           Inr outputAfterFix"
    and "results outputAfterFix = rf # rs2"
    and "postcssResult rf = Some p" and "root p = Some rt" and "opts p = Some os"
    and "fixedCode = toString rt (syntax_o os)"
    and "if truthy (unfixable testCase)
         then (truthy_string (fixed testCase) \<longrightarrow> fixed testCase = Some fixedCode) \<and>
              fixedCode = code testCase
         else fixed testCase = Some fixedCode \<and> fixedCode \<noteq> code testCase"
  shows
  "fst (reject_comparisons cfg schema testCase lint) =
     [stylelintOptions cfg schema testCase,
      (stylelintOptions cfg schema testCase) \<lparr> opt_fix := Some True \<rparr>,
      (stylelintOptions cfg schema testCase)
        \<lparr> opt_code := fixedCode, opt_fix := unfixable testCase \<rparr>] \<and>
   (snd (reject_comparisons cfg schema testCase lint) = Inr ()) =
     (\<exists>out3 r3 rs3.
        lint ((stylelintOptions cfg schema testCase)
                \<lparr> opt_code := fixedCode, opt_fix := unfixable testCase \<rparr>) = Inr out3 \<and>
        results out3 = r3 # rs3 \<and> parseErrors r3 = [] \<and>
        length (res_warnings r3) = length (res_warnings rf) \<and>
        (\<forall>i < length (res_warnings rf). \<forall>k v. (k, v) \<in> set (res_warnings rf ! i) \<longrightarrow>
           (\<exists>x. map_of (res_warnings r3 ! i) k = Some x \<and> subsetEquality x v))) \<and>
   (lint ((stylelintOptions cfg schema testCase)
            \<lparr> opt_code := fixedCode, opt_fix := unfixable testCase \<rparr>) = Inr out \<and>
    snd (reject_comparisons cfg schema testCase lint) \<noteq> Inr () \<longrightarrow>
    snd (reject_comparisons cfg schema testCase lint) = Inl (AssertionError
      ''expect(outputAfterLintOnFixedCode.results[0]).toMatchObject({warnings, parseErrors: []})''))"
proof -
  note fixc = fix_comparisons_relint [of schema lint cfg testCase outputAfterFix rf rs2 p rt os
      fixedCode, OF assms(6-13)]
  from reject_lint_phase [of lint cfg schema testCase outputAfterLint r rs, OF assms(1,2)]
    assms(3-5)
  have run: "reject_comparisons cfg schema testCase lint =
      (stylelintOptions cfg schema testCase # fst (fix_comparisons cfg schema testCase lint),
       snd (fix_comparisons cfg schema testCase lint))"
    by simp
  show ?thesis
  proof (cases "lint ((stylelintOptions cfg schema testCase)
                   \<lparr> opt_code := fixedCode, opt_fix := unfixable testCase \<rparr>)")
    case (Inl e)
    with run fixc show ?thesis by simp
  next
    case (Inr out3)
    with run fixc toMatchObject_result_iff [of out3 "res_warnings rf"] show ?thesis
      by auto
  qed
qed

text \<open>
  The theorem at the case \<open>.Foo{}\<close> with \<open>fixed: '.foo{}'\<close>: three invocations, the last
  on \<open>.foo{}\<close> without autofix, and the test passes: the warning of the last lint has
  the \<open>text\<close> of the warning the autofix pass left, and its \<open>node\<close> has the \<open>type\<close> of
  that warning's \<open>node\<close>.
\<close>

theorem relint_after_fix_witness:
  "reject_comparisons example_config (example_schema \<lparr> fix_s := Some True \<rparr>)
     lowercase_reject lowercase_engine =
     ([\<lparr> opt_code = ''.Foo{}'', opt_config = example_config, opt_customSyntax = None,
         opt_codeFilename = None, opt_fix = None \<rparr>,
       \<lparr> opt_code = ''.Foo{}'', opt_config = example_config, opt_customSyntax = None,
         opt_codeFilename = None, opt_fix = Some True \<rparr>,
       \<lparr> opt_code = ''.foo{}'', opt_config = example_config, opt_customSyntax = None,
         opt_codeFilename = None, opt_fix = None \<rparr>],
      Inr ())"
proof -
  let ?schema = "example_schema \<lparr> fix_s := Some True \<rparr>"
  let ?o1 = "stylelintOptions example_config ?schema lowercase_reject"
  let ?r = "lowercase_lint_result ''.Foo{}''"
  have o1: "?o1 = \<lparr> opt_code = ''.Foo{}'', opt_config = example_config,
      opt_customSyntax = None, opt_codeFilename = None, opt_fix = None \<rparr>"
    by (simp add: stylelintOptions_def lowercase_reject_def example_schema_def)
  have h1: "lowercase_engine ?o1 = Inr \<lparr> results = [?r] \<rparr>"
    by (simp add: o1 lowercase_engine_def)
  have h2: "results \<lparr> results = [?r] \<rparr> = ?r # []" by simp
  have h3: "parseErrors ?r = []" by (simp add: lowercase_lint_result_def)
  have h4: "length (invalidOptionWarnings ?r @ res_warnings ?r) =
      (case warnings lowercase_reject of Some ws \<Rightarrow> length ws | None \<Rightarrow> 1)"
    by (simp add: lowercase_lint_result_def lowercase_reject_def)
  have h5: "forEach_warning (invalidOptionWarnings ?r @ res_warnings ?r) 0
      (case warnings lowercase_reject of Some ws \<Rightarrow> ws | None \<Rightarrow> [own_warning lowercase_reject])
      = ([], Inr ())"
    by (simp add: lowercase_lint_result_def lowercase_reject_def run_simps index_def
          toMatchObject_simps expectedWarning_def List.map_filter_simps)
  have h6: "truthy (fix_s ?schema)" by (simp add: truthy_def)
  have h7: "lowercase_engine (?o1 \<lparr> opt_fix := Some True \<rparr>) =
      Inr \<lparr> results = [lowercase_fix_result] \<rparr>"
    by (simp add: lowercase_engine_def)
  have h8: "results \<lparr> results = [lowercase_fix_result] \<rparr> = lowercase_fix_result # []" by simp
  have h9: "postcssResult lowercase_fix_result =
      Some \<lparr> root = Some (Root (\<lambda>stringifier. ''.foo{}'')), opts = Some \<lparr> syntax_o = None \<rparr> \<rparr>"
    by (simp add: lowercase_fix_result_def)
  have h10: "root \<lparr> root = Some (Root (\<lambda>stringifier. ''.foo{}'')),
      opts = Some \<lparr> syntax_o = None \<rparr> \<rparr> = Some (Root (\<lambda>stringifier. ''.foo{}''))" by simp
  have h11: "opts \<lparr> root = Some (Root (\<lambda>stringifier. ''.foo{}'')),
      opts = Some \<lparr> syntax_o = None \<rparr> \<rparr> = Some \<lparr> syntax_o = None \<rparr>" by simp
  have h12: "''.foo{}'' = toString (Root (\<lambda>stringifier. ''.foo{}'')) (syntax_o \<lparr> syntax_o = None \<rparr>)"
    by simp
  have h13: "if truthy (unfixable lowercase_reject)
         then (truthy_string (fixed lowercase_reject) \<longrightarrow>
                 fixed lowercase_reject = Some ''.foo{}'') \<and>
              ''.foo{}'' = code lowercase_reject
         else fixed lowercase_reject = Some ''.foo{}'' \<and> ''.foo{}'' \<noteq> code lowercase_reject"
    by (simp add: lowercase_reject_def truthy_def)
  note t = relint_after_fix [of lowercase_engine example_config ?schema lowercase_reject
      "\<lparr> results = [?r] \<rparr>" ?r "[]" "\<lparr> results = [lowercase_fix_result] \<rparr>"
      lowercase_fix_result "[]"
      "\<lparr> root = Some (Root (\<lambda>stringifier. ''.foo{}'')), opts = Some \<lparr> syntax_o = None \<rparr> \<rparr>"
      "Root (\<lambda>stringifier. ''.foo{}'')" "\<lparr> syntax_o = None \<rparr>" "''.foo{}''"
      "\<lparr> results = [lowercase_lint_result ''.foo{}''] \<rparr>",
      OF h1 h2 h3 h4 h5 h6 h7 h8 h9 h10 h11 h12 h13]
  have u: "unfixable lowercase_reject = None" by (simp add: lowercase_reject_def)
  have h14: "lowercase_engine (?o1 \<lparr> opt_code := ''.foo{}'', opt_fix := None \<rparr>) =
      Inr \<lparr> results = [lowercase_lint_result ''.foo{}''] \<rparr>"
    by (simp add: lowercase_engine_def)
  have m: "\<forall>i < length (res_warnings lowercase_fix_result).
      \<forall>k v. (k, v) \<in> set (res_warnings lowercase_fix_result ! i) \<longrightarrow>
        (\<exists>x. map_of (res_warnings (lowercase_lint_result ''.foo{}'') ! i) k = Some x \<and>
             subsetEquality x v)"
    by (auto simp: lowercase_fix_result_def lowercase_lint_result_def property_of_def)
  have "snd (reject_comparisons example_config ?schema lowercase_reject lowercase_engine)
      = Inr ()"
    using t h14 m u
    by (simp add: lowercase_lint_result_def lowercase_fix_result_def)
  moreover have "fst (reject_comparisons example_config ?schema lowercase_reject lowercase_engine)
      = [?o1, ?o1 \<lparr> opt_fix := Some True \<rparr>, ?o1 \<lparr> opt_code := ''.foo{}'', opt_fix := None \<rparr>]"
    using t u by simp
  ultimately show ?thesis
    by (simp add: prod_eq_iff o1)
qed

text \<open>
  Claim C8 as stated has the test assert that the warnings of the last lint equal those
  the autofix pass left. On the case \<open>.Foo{}\<close> the test passes although they differ: the
  warning of the last lint has a \<open>line\<close>, the warning of the autofix pass has none.
\<close>

theorem relint_equality_counterexample:
  "snd (reject_comparisons example_config (example_schema \<lparr> fix_s := Some True \<rparr>)
          lowercase_reject lowercase_engine) = Inr () \<and>
   lowercase_engine \<lparr> opt_code = ''.Foo{}'', opt_config = example_config,
       opt_customSyntax = None, opt_codeFilename = None, opt_fix = Some True \<rparr> =
     Inr \<lparr> results = [lowercase_fix_result] \<rparr> \<and>
   lowercase_engine \<lparr> opt_code = ''.foo{}'', opt_config = example_config,
       opt_customSyntax = None, opt_codeFilename = None, opt_fix = None \<rparr> =
     Inr \<lparr> results = [lowercase_lint_result ''.foo{}''] \<rparr> \<and>
   res_warnings (lowercase_lint_result ''.foo{}'') \<noteq> res_warnings lowercase_fix_result \<and>
   map (\<lambda>w. map_of w ''line'') (res_warnings (lowercase_lint_result ''.foo{}'')) =
     [Some (JNum 1)] \<and>
   map (\<lambda>w. map_of w ''line'') (res_warnings lowercase_fix_result) = [None]"
  by (simp add: reject_comparisons_def fix_comparisons_def getOutputCss_def
        lowercase_engine_def lowercase_reject_def lowercase_fix_result_def
        lowercase_lint_result_def example_schema_def
        run_simps first_result_def index_def toMatchObject_simps toMatchObject_result_def
        expectedWarning_def List.map_filter_simps truthy_def truthy_string_def
        stylelintOptions_def property_of_def)

section \<open>The engine configuration\<close>

lemma bind_run_alt:
  "bind_run m k =
     (case snd m of Inl e \<Rightarrow> (fst m, Inl e) | Inr x \<Rightarrow> (fst m @ fst (k x), snd (k x)))"
  by (cases m; cases "snd m") (simp_all add: bind_run_def split: prod.splits)

lemma first_result_calls: "fst (first_result output) = []"
  by (simp add: first_result_def run_simps split: option.splits)

lemma calls_bindI:
  assumes "\<forall>c \<in> set (fst m). P c" and "\<And>x. \<forall>c \<in> set (fst (k x)). P c"
  shows "\<forall>c \<in> set (fst (bind_run m k)). P c"
  using assms by (auto simp: bind_run_alt split: sum.splits)

lemma calls_ifI:
  assumes "b \<Longrightarrow> \<forall>c \<in> set (fst x). P c" and "\<not> b \<Longrightarrow> \<forall>c \<in> set (fst y). P c"
  shows "\<forall>c \<in> set (fst (if b then x else y)). P c"
  using assms by simp

lemma calls_none:
  "\<forall>c \<in> set (fst (finish x)). P c"
  "\<forall>c \<in> set (fst (throw e :: 'a run)). P c"
  "\<forall>c \<in> set (fst (expect b w)). P c"
  "\<forall>c \<in> set (fst (first_result output)). P c"
  "\<forall>c \<in> set (fst (getOutputCss output)). P c"
  "\<forall>c \<in> set (fst (forEach_warning actual i ws)). P c"
  by (simp_all add: finish_def throw_def expect_def first_result_calls getOutputCss_calls
        forEach_warning_calls)

lemma calls_await: "P options \<Longrightarrow> \<forall>c \<in> set (fst (await_lint lint options)). P c"
  by (simp add: await_lint_def)

lemma await_first: "fst (bind_run (await_lint lint options) k) \<noteq> []"
  by (simp add: bind_run_alt await_lint_def split: sum.splits)

lemma accept_calls:
  "fst (accept_comparisons cfg schema testCase lint) \<noteq> [] \<and>
   (\<forall>c \<in> set (fst (accept_comparisons cfg schema testCase lint)). opt_config c = cfg)"
  unfolding accept_comparisons_def
  by (intro conjI await_first calls_bindI calls_ifI calls_none calls_await)
     (simp_all add: stylelintOptions_def)

lemma fix_calls:
  "\<forall>c \<in> set (fst (fix_comparisons cfg schema testCase lint)). opt_config c = cfg"
  unfolding fix_comparisons_def
  by (intro calls_bindI calls_ifI calls_none calls_await)
     (simp_all add: stylelintOptions_def)

lemma reject_calls:
  "fst (reject_comparisons cfg schema testCase lint) \<noteq> [] \<and>
   (\<forall>c \<in> set (fst (reject_comparisons cfg schema testCase lint)). opt_config c = cfg)"
  unfolding reject_comparisons_def Let_def
  by (intro conjI await_first calls_bindI calls_ifI calls_none calls_await fix_calls)
     (simp_all add: stylelintOptions_def)

lemma leaf_tests_setupTestCases:
  "concat (map leaf_tests (setupTestCases name cases schema comparisons)) =
     (case cases of
        None \<Rightarrow> []
      | Some cs \<Rightarrow>
          map comparisons (concat (map (\<lambda>c. case c of None \<Rightarrow> [] | Some tc \<Rightarrow> [tc]) cs)))"
  by (cases cases) (simp_all add: setupTestCases_def Let_def leaf_tests_kids)

text \<open>
  Claim C1, as the code has it. For every schema given to the function that
  \<open>getTestRule\<close> returns, every leaf test invokes the engine, and every invocation
  carries the configuration whose \<open>plugins\<close> are the factory's plugins when those are
  truthy (a non-empty string, or any list) and the schema's own plugins otherwise
  (\<open>options.plugins || schema.plugins\<close>), and whose \<open>rules\<close> map the rule name to the
  schema's \<open>config\<close>.
\<close>

theorem engine_configuration:
  assumes "f \<in> set (leaf_tests (getTestRule options schema))"
  shows
  "fst (f lint) \<noteq> [] \<and>
   (\<forall>call \<in> set (fst (f lint)).
      plugins_c (opt_config call) =
        (if truthy_plugins (plugins_o options) then plugins_o options else plugins schema) \<and>
      rules (opt_config call) = [(ruleName schema, config schema)])"
proof -
  from assms have "f \<in> set (concat (map leaf_tests
        (setupTestCases ''accept'' (accept schema) schema
           (accept_comparisons (stylelintConfig options schema) schema)))) \<or>
      f \<in> set (concat (map leaf_tests
        (setupTestCases ''reject'' (reject schema) schema
           (reject_comparisons (stylelintConfig options schema) schema))))"
    by (auto simp: getTestRule_def)
  then have "(\<exists>tc :: test_case. f = accept_comparisons (stylelintConfig options schema) schema tc) \<or>
      (\<exists>tc. f = reject_comparisons (stylelintConfig options schema) schema tc)"
    unfolding leaf_tests_setupTestCases by (auto split: option.splits)
  then consider
    (acc) tc :: test_case
      where "f = accept_comparisons (stylelintConfig options schema) schema tc"
  | (rej) tc where "f = reject_comparisons (stylelintConfig options schema) schema tc"
    by blast
  then show ?thesis
  proof cases
    case acc
    with accept_calls [of "stylelintConfig options schema" schema tc lint] show ?thesis
      by (simp add: stylelintConfig_def)
  next
    case rej
    with reject_calls [of "stylelintConfig options schema" schema tc lint] show ?thesis
      by (simp add: stylelintConfig_def)
  qed
qed

text \<open>
  The theorem at the accept test of the example schema, registered by the factory with
  the default plugins \<open>['./']\<close>, run against the example engine.
\<close>

theorem engine_configuration_witness:
  "fst (accept_comparisons (stylelintConfig \<lparr> plugins_o = Some (Paths [''./'']) \<rparr> example_schema)
          example_schema example_accept example_engine) \<noteq> [] \<and>
   list_all (\<lambda>call. plugins_c (opt_config call) = Some (Paths [''./'']) \<and>
                     rules (opt_config call) = [(''no-foo'', JBool True)])
     (fst (accept_comparisons (stylelintConfig \<lparr> plugins_o = Some (Paths [''./'']) \<rparr> example_schema)
          example_schema example_accept example_engine))"
proof -
  have "accept_comparisons (stylelintConfig \<lparr> plugins_o = Some (Paths [''./'']) \<rparr> example_schema)
          example_schema example_accept
        \<in> set (leaf_tests (getTestRule \<lparr> plugins_o = Some (Paths [''./'']) \<rparr> example_schema))"
    by (simp add: getTestRule_def leaf_tests_setupTestCases example_schema_def)
  from engine_configuration [OF this, of example_engine] show ?thesis
    by (simp add: list_all_iff truthy_plugins_def example_schema_def)
qed

text \<open>
  Claim C1 as stated resolves the plugins as the schema's own when the schema supplies
  them. With factory plugins \<open>['./factory.js']\<close> and a schema that supplies
  \<open>'./schema.js'\<close>, both leaf tests invoke the engine with the factory's plugins.
\<close>

theorem plugins_precedence_counterexample:
  "plugins (example_schema \<lparr> plugins := Some (Path ''./schema.js'') \<rparr>) =
     Some (Path ''./schema.js'') \<and>
   map (\<lambda>f. map (\<lambda>call. plugins_c (opt_config call)) (fst (f example_engine)))
     (leaf_tests (getTestRule \<lparr> plugins_o = Some (Paths [''./factory.js'']) \<rparr>
        (example_schema \<lparr> plugins := Some (Path ''./schema.js'') \<rparr>))) =
     [[Some (Paths [''./factory.js''])], [Some (Paths [''./factory.js''])]]"
  by (simp add: getTestRule_def setupTestCases_def stylelintConfig_def truthy_plugins_def
        accept_comparisons_def reject_comparisons_def fix_comparisons_def example_defs
        run_simps first_result_def index_def toMatchObject_simps expectedWarning_def
        List.map_filter_simps truthy_def truthy_string_def stylelintOptions_def)

end
